(* ===== verification/Prelude.thy ===== *)
theory Prelude
  imports Main
begin

text \<open>
  Shared vocabulary of the development: the Python exceptions the pipeline can raise
  (\<open>exc\<close>), dictionary keys (\<open>pykey\<close>), the error-propagating bind of the sum type
  \<open>exc + 'a\<close> that every fallible operation returns (an \<open>Inl\<close> is a raised exception),
  and the generic lemmas on lists and sums that the component theories share.
\<close>

section \<open>Named collections\<close>

named_theorems etl_simps \<open>evaluation rules of the pipeline model\<close>

section \<open>Paths, keys and timestamps\<close>

type_synonym path = string

text \<open>
  Keys of the dictionaries \<^verbatim>\<open>csv.DictReader\<close> produces: the column names of the
  header row (\<open>KStr\<close>) and Python's \<^verbatim>\<open>None\<close>, the default \<^verbatim>\<open>restkey\<close> under which
  surplus columns of a long row are stored (\<open>KNone\<close>).
\<close>

datatype pykey = KStr string | KNone

text \<open>
  A UTC wall-clock reading, as \<^verbatim>\<open>datetime.now(tz=pytz.timezone("UTC"))\<close> returns it:
  microseconds since the epoch.
\<close>

type_synonym timestamp = int

section \<open>Exceptions\<close>

text \<open>
  The exceptions raised by the code and by the library calls it makes. The four
  \<open>Sql*\<close> constructors are the subclasses of \<^verbatim>\<open>sqlite3.Error\<close>; \<open>CsvError\<close> is
  \<^verbatim>\<open>_csv.Error\<close>; the rest are builtin exceptions.
\<close>

datatype exc =
    KeyError pykey
  | ValueError string
  | TypeError string
  | AttributeError string
  | OverflowError string
  | FileNotFoundError path
  | IsADirectoryError path
  | UnicodeDecodeError path
  | CsvError string
  | SqlOperationalError string
  | SqlProgrammingError string
  | SqlIntegrityError string
  | SqlDatabaseError string

text \<open>\<^verbatim>\<open>isinstance(e, sqlite3.Error)\<close>: which handler of \<^verbatim>\<open>load_data\<close> catches \<open>e\<close>.\<close>

fun is_sqlite_error :: "exc \<Rightarrow> bool" where
  "is_sqlite_error (SqlOperationalError _) = True"
| "is_sqlite_error (SqlProgrammingError _) = True"
| "is_sqlite_error (SqlIntegrityError _) = True"
| "is_sqlite_error (SqlDatabaseError _) = True"
| "is_sqlite_error _ = False"

section \<open>Raising and propagating\<close>

text \<open>
  \<open>sbind m f\<close> runs \<open>f\<close> on the value of \<open>m\<close> and propagates an exception
  unchanged, as a Python statement sequence does.
\<close>

definition sbind :: "exc + 'a \<Rightarrow> ('a \<Rightarrow> exc + 'b) \<Rightarrow> exc + 'b" where
  "sbind m f = (case m of Inl e \<Rightarrow> Inl e | Inr x \<Rightarrow> f x)"

text \<open>Evaluating a sequence of fallible expressions left to right, stopping at the
  first exception.\<close>

fun seq_exc :: "(exc + 'a) list \<Rightarrow> exc + 'a list" where
  "seq_exc [] = Inr []"
| "seq_exc (m # ms) = sbind m (\<lambda>x. sbind (seq_exc ms) (\<lambda>xs. Inr (x # xs)))"

lemma sbind_Inl [simp]: "sbind (Inl e) f = Inl e"
  by (simp add: sbind_def)

lemma sbind_Inr [simp]: "sbind (Inr x) f = f x"
  by (simp add: sbind_def)

lemma sbind_eq_Inr [simp]:
  "sbind m f = Inr y \<longleftrightarrow> (\<exists>x. m = Inr x \<and> f x = Inr y)"
  by (cases m) auto

lemma sbind_eq_Inl:
  "sbind m f = Inl e \<longleftrightarrow> m = Inl e \<or> (\<exists>x. m = Inr x \<and> f x = Inl e)"
  by (cases m) auto

lemma seq_exc_map_Inr:
  "\<forall>x\<in>set xs. f x = Inr (g x) \<Longrightarrow> seq_exc (map f xs) = Inr (map g xs)"
  by (induction xs) auto

lemma seq_exc_Inr_length: "seq_exc ms = Inr xs \<Longrightarrow> length xs = length ms"
  by (induction ms arbitrary: xs) (auto simp: sbind_def split: sum.splits)

lemma length_4_conv: "length r = 4 \<Longrightarrow> r = [r ! 0, r ! 1, r ! 2, r ! 3]"
  by (simp add: list_eq_iff_nth_eq less_Suc_eq numeral_eq_Suc)

lemma length_5_conv: "length r = 5 \<Longrightarrow> r = [r ! 0, r ! 1, r ! 2, r ! 3, r ! 4]"
  by (simp add: list_eq_iff_nth_eq less_Suc_eq numeral_eq_Suc)

lemma sbind_return [simp]: "sbind m Inr = m"
  by (cases m) (simp_all add: sbind_def)

end
