(* ===== verification/PyDict.thy ===== *)
theory PyDict
  imports Prelude
begin

text \<open>
  Python's \<^verbatim>\<open>dict\<close> as the pipeline uses it: an insertion-ordered association list
  with distinct keys. The order matters to the program: \<^verbatim>\<open>load_data\<close> binds
  \<^verbatim>\<open>tuple(row.values())\<close> positionally, so which column receives which value depends
  on the order in which the keys were first inserted. The operations:
  \<^item> \<open>dict_set d k v\<close>, \<^verbatim>\<open>d[k] = v\<close>: replaces the value in place when \<open>k\<close> is a
    key, appends \<open>(k, v)\<close> otherwise;
  \<^item> \<open>dict_del d k\<close>, \<^verbatim>\<open>del d[k]\<close>: removes the entry, \<open>None\<close> when there is none
    (\<open>delitem\<close> raises \<^verbatim>\<open>KeyError\<close> there);
  \<^item> \<open>dict_lookup d k\<close>, \<^verbatim>\<open>d.get(k)\<close>, and \<open>getitem d k\<close>, \<^verbatim>\<open>d[k]\<close> with its
    \<^verbatim>\<open>KeyError\<close>;
  \<^item> \<open>dict_keys\<close>, \<open>dict_values\<close> in insertion order;
  \<^item> \<open>dict_from_pairs\<close>, \<^verbatim>\<open>dict(zip(ks, vs))\<close>.
  The invariant is \<open>dict_wf\<close> (distinct keys); every operation keeps it, and the
  abstraction \<open>dict_lookup\<close> to a map \<open>'k \<rightharpoonup> 'v\<close> turns each operation into the
  map operation it implements.
\<close>

type_synonym ('k, 'v) pydict = "('k \<times> 'v) list"

definition dict_keys :: "('k, 'v) pydict \<Rightarrow> 'k list" where
  "dict_keys d = map fst d"

definition dict_values :: "('k, 'v) pydict \<Rightarrow> 'v list" where
  "dict_values d = map snd d"

definition dict_lookup :: "('k, 'v) pydict \<Rightarrow> 'k \<Rightarrow> 'v option" where
  "dict_lookup d = map_of d"

definition dict_wf :: "('k, 'v) pydict \<Rightarrow> bool" where
  "dict_wf d \<longleftrightarrow> distinct (dict_keys d)"

fun dict_set :: "('k, 'v) pydict \<Rightarrow> 'k \<Rightarrow> 'v \<Rightarrow> ('k, 'v) pydict" where
  "dict_set [] k v = [(k, v)]"
| "dict_set ((k', v') # d) k v =
     (if k' = k then (k', v) # d else (k', v') # dict_set d k v)"

fun dict_del :: "('k, 'v) pydict \<Rightarrow> 'k \<Rightarrow> ('k, 'v) pydict option" where
  "dict_del [] k = None"
| "dict_del ((k', v') # d) k =
     (if k' = k then Some d else map_option (Cons (k', v')) (dict_del d k))"

definition dict_from_pairs :: "('k \<times> 'v) list \<Rightarrow> ('k, 'v) pydict" where
  "dict_from_pairs ps = foldl (\<lambda>d (k, v). dict_set d k v) [] ps"

definition getitem :: "(pykey, 'v) pydict \<Rightarrow> pykey \<Rightarrow> exc + 'v" where
  "getitem d k = (case dict_lookup d k of None \<Rightarrow> Inl (KeyError k) | Some v \<Rightarrow> Inr v)"

definition delitem :: "(pykey, 'v) pydict \<Rightarrow> pykey \<Rightarrow> exc + (pykey, 'v) pydict" where
  "delitem d k = (case dict_del d k of None \<Rightarrow> Inl (KeyError k) | Some d' \<Rightarrow> Inr d')"

section \<open>Keys, values and lookup after each operation\<close>

lemma dict_keys_simps [simp]:
  "dict_keys [] = []" "dict_keys ((k, v) # d) = k # dict_keys d"
  by (simp_all add: dict_keys_def)

lemma dict_values_simps [simp]:
  "dict_values [] = []" "dict_values ((k, v) # d) = v # dict_values d"
  by (simp_all add: dict_values_def)

lemma dict_lookup_simps [simp]:
  "dict_lookup [] k = None"
  "dict_lookup ((k', v) # d) k = (if k = k' then Some v else dict_lookup d k)"
  by (simp_all add: dict_lookup_def)

lemma length_dict_keys_values: "length (dict_keys d) = length (dict_values d)"
  by (simp add: dict_keys_def dict_values_def)

lemma dict_lookup_None_iff: "dict_lookup d k = None \<longleftrightarrow> k \<notin> set (dict_keys d)"
  by (induction d) (auto split: if_splits)

lemma dict_keys_set:
  "dict_keys (dict_set d k v) =
     (if k \<in> set (dict_keys d) then dict_keys d else dict_keys d @ [k])"
  by (induction d) auto

lemma set_dict_keys_set [simp]: "set (dict_keys (dict_set d k v)) = insert k (set (dict_keys d))"
  by (induction d) (auto split: if_splits)

lemma length_dict_set:
  "length (dict_set d k v) = (if k \<in> set (dict_keys d) then length d else Suc (length d))"
  by (induction d) auto

lemma dict_lookup_set [simp]:
  "dict_lookup (dict_set d k v) k' = (if k' = k then Some v else dict_lookup d k')"
  by (induction d) auto

lemma dict_set_wf: "dict_wf d \<Longrightarrow> dict_wf (dict_set d k v)"
  by (induction d) (auto simp: dict_wf_def)

lemma dict_del_None_iff: "dict_del d k = None \<longleftrightarrow> k \<notin> set (dict_keys d)"
  by (induction d) (auto split: if_splits)

lemma dict_del_keys:
  "dict_wf d \<Longrightarrow> dict_del d k = Some d' \<Longrightarrow> dict_keys d' = filter (\<lambda>k'. k' \<noteq> k) (dict_keys d)"
proof (induction d arbitrary: d')
  case Nil
  then show ?case by simp
next
  case (Cons p d)
  obtain k' v' where p: "p = (k', v')" by fastforce
  show ?case
  proof (cases "k' = k")
    case True
    with Cons.prems p have "d' = d" "k \<notin> set (dict_keys d)" by (auto simp: dict_wf_def)
    moreover from \<open>k \<notin> set (dict_keys d)\<close> have "filter (\<lambda>k'. k' \<noteq> k) (dict_keys d) = dict_keys d"
      by (auto simp: filter_id_conv)
    ultimately show ?thesis using True p by simp
  next
    case False
    with Cons.prems p obtain d'' where "dict_del d k = Some d''" "d' = (k', v') # d''"
      by auto
    with Cons.IH Cons.prems False p show ?thesis by (simp add: dict_wf_def)
  qed
qed

lemma dict_del_wf: "dict_wf d \<Longrightarrow> dict_del d k = Some d' \<Longrightarrow> dict_wf d'"
  by (simp add: dict_del_keys dict_wf_def)

lemma dict_del_removes: "dict_wf d \<Longrightarrow> dict_del d k = Some d' \<Longrightarrow> k \<notin> set (dict_keys d')"
  by (simp add: dict_del_keys)

lemma dict_del_lookup:
  "dict_wf d \<Longrightarrow> dict_del d k = Some d' \<Longrightarrow>
     dict_lookup d' k' = (if k' = k then None else dict_lookup d k')"
proof (induction d arbitrary: d' k')
  case Nil
  then show ?case by simp
next
  case (Cons p d)
  obtain k1 v1 where p: "p = (k1, v1)" by fastforce
  show ?case
  proof (cases "k1 = k")
    case True
    with Cons.prems p have "d' = d" "k \<notin> set (dict_keys d)" by (auto simp: dict_wf_def)
    with True p show ?thesis by (simp add: dict_lookup_None_iff)
  next
    case False
    with Cons.prems p obtain d'' where "dict_del d k = Some d''" "d' = (k1, v1) # d''"
      by auto
    with Cons.IH Cons.prems False p show ?thesis by (simp add: dict_wf_def)
  qed
qed

lemma dict_from_pairs_wf_aux:
  "dict_wf d \<Longrightarrow> dict_wf (foldl (\<lambda>d (k, v). dict_set d k v) d ps)"
  by (induction ps arbitrary: d) (auto intro: dict_set_wf)

lemma dict_from_pairs_wf: "dict_wf (dict_from_pairs ps)"
  unfolding dict_from_pairs_def by (rule dict_from_pairs_wf_aux) (simp add: dict_wf_def)

lemma dict_from_pairs_distinct:
  "distinct (map fst ps) \<Longrightarrow> dict_from_pairs ps = ps"
proof -
  have "distinct (map fst ps) \<Longrightarrow> set (map fst ps) \<inter> set (dict_keys d) = {} \<Longrightarrow>
          foldl (\<lambda>d (k, v). dict_set d k v) d ps = d @ ps" for d
  proof (induction ps arbitrary: d)
    case Nil
    then show ?case by simp
  next
    case (Cons p ps)
    obtain k v where p: "p = (k, v)" by fastforce
    have "dict_set d k v = d @ [(k, v)]" if "k \<notin> set (dict_keys d)"
      using that by (induction d) auto
    with Cons.prems p have "dict_set d k v = d @ [(k, v)]" by auto
    with Cons.IH [of "d @ [(k, v)]"] Cons.prems p show ?case by (auto simp: dict_keys_def)
  qed
  then show "distinct (map fst ps) \<Longrightarrow> dict_from_pairs ps = ps"
    by (simp add: dict_from_pairs_def)
qed

lemma getitem_Inr_iff: "getitem d k = Inr v \<longleftrightarrow> dict_lookup d k = Some v"
  by (simp add: getitem_def split: option.splits)

lemma getitem_Inl_iff: "getitem d k = Inl e \<longleftrightarrow> dict_lookup d k = None \<and> e = KeyError k"
  by (auto simp add: getitem_def split: option.splits)

lemma delitem_Inr_iff: "delitem d k = Inr d' \<longleftrightarrow> dict_del d k = Some d'"
  by (simp add: delitem_def split: option.splits)

lemma delitem_Inl_iff: "delitem d k = Inl e \<longleftrightarrow> k \<notin> set (dict_keys d) \<and> e = KeyError k"
  by (cases "dict_del d k") (auto simp: delitem_def dict_del_None_iff [symmetric])

end
