(* ===== verification/Gen.thy ===== *)
theory Gen
  imports PyDict
begin

text \<open>
  Python values, rows and the three generators of the pipeline.

  A row is a Python dictionary from \<open>pykey\<close> to \<open>pyval\<close>. The values that occur:
  strings read from the CSV file, \<^verbatim>\<open>None\<close> (DictReader's \<^verbatim>\<open>restval\<close> for a short
  row), the list of surplus fields of a long row, the integer id and the timestamp
  \<^verbatim>\<open>transform_users\<close> stores.

  A generator of the pipeline runs to completion on a finite file, so its whole
  behaviour is a finite value of \<open>'a gen\<close>: each \<open>Yield evs x g\<close> is one resumption
  that prints the lines \<open>evs\<close> and then yields \<open>x\<close>, \<open>g\<close> being the rest; \<open>Stop evs\<close>
  prints \<open>evs\<close> and raises \<^verbatim>\<open>StopIteration\<close>; \<open>Raise evs e\<close> prints \<open>evs\<close> and
  raises \<open>e\<close>. Since the stages are pulled lazily, a consumer that stops early never
  observes the rest; a consumer that runs the generator to its end observes
  \<open>gen_trace\<close> and \<open>gen_items\<close> in this order. The console lines are \<open>event\<close>s,
  one constructor per \<^verbatim>\<open>print\<close> of \<^verbatim>\<open>src/pipeline.py\<close>.
\<close>

datatype pyval = VStr string | VNone | VList "string list" | VInt int | VTime timestamp

type_synonym pyrow = "(pykey, pyval) pydict"

datatype event =
    Csv_written nat path
  | Init_ok | Init_sqlite_error exc | Init_unexpected exc
  | E_start | E_row nat | E_finished
  | T_start | T_row nat | T_finished
  | L_start | L_insert pyrow | L_finished | L_db_error exc | L_unexpected exc

datatype 'a gen = Yield "event list" 'a "'a gen" | Stop "event list" | Raise "event list" exc

text \<open>The lines printed before the first step of \<open>g\<close>.\<close>

fun gen_prefix :: "event list \<Rightarrow> 'a gen \<Rightarrow> 'a gen" where
  "gen_prefix evs (Yield evs' x g) = Yield (evs @ evs') x g"
| "gen_prefix evs (Stop evs') = Stop (evs @ evs')"
| "gen_prefix evs (Raise evs' e) = Raise (evs @ evs') e"

text \<open>What a consumer that exhausts the generator sees: the yielded values, every
  printed line, and whether it ended with an exception.\<close>

primrec gen_items :: "'a gen \<Rightarrow> 'a list" where
  "gen_items (Yield evs x g) = x # gen_items g"
| "gen_items (Stop evs) = []"
| "gen_items (Raise evs e) = []"

primrec gen_trace :: "'a gen \<Rightarrow> event list" where
  "gen_trace (Yield evs x g) = evs @ gen_trace g"
| "gen_trace (Stop evs) = evs"
| "gen_trace (Raise evs e) = evs"

primrec gen_exc :: "'a gen \<Rightarrow> exc option" where
  "gen_exc (Yield evs x g) = gen_exc g"
| "gen_exc (Stop evs) = None"
| "gen_exc (Raise evs e) = Some e"

text \<open>What a consumer that runs the generator to its end obtains: all its items, or
  the exception that ended it.\<close>

definition gen_result :: "'a gen \<Rightarrow> exc + 'a list" where
  "gen_result g = (case gen_exc g of None \<Rightarrow> Inr (gen_items g) | Some e \<Rightarrow> Inl e)"

text \<open>A silent generator over a list, as a plain iterator over a list is.\<close>

primrec gen_of_list :: "'a list \<Rightarrow> 'a gen" where
  "gen_of_list [] = Stop []"
| "gen_of_list (x # xs) = Yield [] x (gen_of_list xs)"

text \<open>The lines a consumer sees that prints \<open>f x\<close> after receiving each item \<open>x\<close>.\<close>

primrec gen_trace_with :: "('a \<Rightarrow> event list) \<Rightarrow> 'a gen \<Rightarrow> event list" where
  "gen_trace_with f (Yield evs x g) = evs @ f x @ gen_trace_with f g"
| "gen_trace_with f (Stop evs) = evs"
| "gen_trace_with f (Raise evs e) = evs"

text \<open>A generator over the items \<open>x i, ..., x (i + m - 1)\<close> that prints \<open>f k\<close> before
  yielding \<open>x k\<close> and \<open>fin\<close> before stopping: the shape every stage of the
  pipeline has when no exception occurs.\<close>

primrec gen_upto :: "(nat \<Rightarrow> event list) \<Rightarrow> event list \<Rightarrow> (nat \<Rightarrow> 'a) \<Rightarrow> nat \<Rightarrow> nat \<Rightarrow> 'a gen" where
  "gen_upto f fin x i 0 = Stop fin"
| "gen_upto f fin x i (Suc m) = Yield (f i) (x i) (gen_upto f fin x (Suc i) m)"

section \<open>Lemmas\<close>

lemma gen_prefix_Nil [simp]: "gen_prefix [] g = g"
  by (cases g) auto

lemma gen_prefix_append [simp]: "gen_prefix evs (gen_prefix evs' g) = gen_prefix (evs @ evs') g"
  by (cases g) auto

lemma gen_items_prefix [simp]: "gen_items (gen_prefix evs g) = gen_items g"
  by (cases g) auto

lemma gen_trace_prefix [simp]: "gen_trace (gen_prefix evs g) = evs @ gen_trace g"
  by (cases g) auto

lemma gen_exc_prefix [simp]: "gen_exc (gen_prefix evs g) = gen_exc g"
  by (cases g) auto

lemma gen_result_Yield [simp]: "gen_result (Yield evs x g) = sbind (gen_result g) (\<lambda>xs. Inr (x # xs))"
  by (simp add: gen_result_def split: option.splits)

lemma gen_result_prefix [simp]: "gen_result (gen_prefix evs g) = gen_result g"
  by (simp add: gen_result_def split: option.splits)

lemma gen_items_of_list [simp]: "gen_items (gen_of_list xs) = xs"
  by (induction xs) auto

lemma gen_exc_of_list [simp]: "gen_exc (gen_of_list xs) = None"
  by (induction xs) auto

lemma gen_trace_of_list [simp]: "gen_trace (gen_of_list xs) = []"
  by (induction xs) auto

lemma gen_trace_with_prefix [simp]:
  "gen_trace_with f (gen_prefix evs g) = evs @ gen_trace_with f g"
  by (cases g) auto

lemma gen_trace_with_Nil [simp]: "gen_trace_with (\<lambda>x. []) g = gen_trace g"
  by (induction g) auto

lemma upt_Suc_add: "[i..<Suc (i + m)] = i # [Suc i..<Suc (i + m)]"
  by (simp add: upt_rec)

lemma gen_of_list_upto: "gen_of_list (map x [i..<i + m]) = gen_upto (\<lambda>k. []) [] x i m"
proof (induction m arbitrary: i)
  case (Suc m)
  then show ?case using Suc [of "Suc i"] by (simp del: upt_Suc add: upt_Suc_add)
qed simp

lemma gen_items_upto [simp]: "gen_items (gen_upto f fin x i m) = map x [i..<i + m]"
  by (induction m arbitrary: i) (simp_all del: upt_Suc add: upt_Suc_add)

lemma gen_exc_upto [simp]: "gen_exc (gen_upto f fin x i m) = None"
  by (induction m arbitrary: i) auto

lemma gen_trace_with_upto [simp]:
  "gen_trace_with h (gen_upto f fin x i m) = concat (map (\<lambda>k. f k @ h (x k)) [i..<i + m]) @ fin"
  by (induction m arbitrary: i) (simp_all del: upt_Suc add: upt_Suc_add)

end
