(* ===== verification/Csv.thy ===== *)
theory Csv
  imports Gen
begin

text \<open>
  The \<^verbatim>\<open>csv\<close> module with the default \<^verbatim>\<open>excel\<close> dialect (delimiter \<^verbatim>\<open>,\<close>, quote
  character \<^verbatim>\<open>"\<close>, doubled quotes, no escape character, \<^verbatim>\<open>QUOTE_MINIMAL\<close>, line
  terminator \<^verbatim>\<open>\r\n\<close>, not strict), as \<^verbatim>\<open>generate_csv\<close> and \<^verbatim>\<open>extract_users\<close>
  call it, and the text-mode file I/O around it:
  \<^item> the writer (\<open>csv_write_row\<close>): \<^verbatim>\<open>Writer.writerow\<close> of CPython's
    \<^verbatim>\<open>Modules/_csv.c\<close>, quoting a field that holds a delimiter, a quote or a line-end
    character, and the single-empty-field rule;
  \<^item> universal newlines (\<open>univ_nl\<close>, \<open>text_lines\<close>): the file is opened with
    \<^verbatim>\<open>path.open("r")\<close>, so \<^verbatim>\<open>\r\n\<close> and \<^verbatim>\<open>\r\<close> read as \<^verbatim>\<open>\n\<close> and iteration yields
    the lines with their terminator;
  \<^item> the reader (\<open>process\<close>, \<open>read_record\<close>, \<open>csv_rows\<close>): the state machine
    \<^verbatim>\<open>parse_process_char\<close> over a line's characters and the end-of-line sentinel, and
    \<^verbatim>\<open>Reader_iternext\<close>, which reads lines until a record is complete, with the field
    size limit \<^verbatim>\<open>csv.field_size_limit()\<close> (131072) as the parameter \<open>lim\<close>;
  \<^item> \<^verbatim>\<open>csv.DictReader\<close> (\<open>dict_reader\<close>): the first record names the columns,
    blank records are skipped, a short row is padded with \<^verbatim>\<open>None\<close>, the surplus of a
    long row is stored under the key \<^verbatim>\<open>None\<close>.
  The escape-character states of the C machine are left out: the dialect has no
  escape character, so they are unreachable.
\<close>

section \<open>Characters of the dialect\<close>

abbreviation LF :: char where "LF \<equiv> CHR 0x0A"
abbreviation CR :: char where "CR \<equiv> CHR 0x0D"
abbreviation QUOTE :: char where "QUOTE \<equiv> CHR 0x22"
abbreviation DELIM :: char where "DELIM \<equiv> CHR 0x2C"

definition is_nl :: "char \<Rightarrow> bool" where
  "is_nl c \<longleftrightarrow> c = LF \<or> c = CR"

section \<open>Writer\<close>

definition csv_needs_quote :: "string \<Rightarrow> bool" where
  "csv_needs_quote s \<longleftrightarrow> (\<exists>c\<in>set s. c = DELIM \<or> c = QUOTE \<or> c = CR \<or> c = LF)"

definition csv_quote :: "string \<Rightarrow> string" where
  "csv_quote s = QUOTE # concat (map (\<lambda>c. if c = QUOTE then [QUOTE, QUOTE] else [c]) s) @ [QUOTE]"

definition csv_field :: "string \<Rightarrow> string" where
  "csv_field s = (if csv_needs_quote s then csv_quote s else s)"

text \<open>\<^verbatim>\<open>join_append\<close>: a delimiter before every field but the first.\<close>

fun csv_join :: "string list \<Rightarrow> string" where
  "csv_join [] = []"
| "csv_join (f # fs) = f @ concat (map (\<lambda>g. DELIM # g) fs)"

definition csv_write_row :: "string list \<Rightarrow> string" where
  "csv_write_row r =
     (if r = [[]] then [QUOTE, QUOTE] else csv_join (map csv_field r)) @ [CR, LF]"

section \<open>Text-mode reading\<close>

fun univ_nl :: "string \<Rightarrow> string" where
  "univ_nl [] = []"
| "univ_nl [c] = (if c = CR then [LF] else [c])"
| "univ_nl (c # d # cs) =
     (if c = CR then LF # (if d = LF then univ_nl cs else univ_nl (d # cs))
      else c # univ_nl (d # cs))"

text \<open>Iterating over a file object: lines split after each \<^verbatim>\<open>\n\<close>, a last line
  without terminator if the text does not end in one. \<open>cur\<close> is the line read so far.\<close>

fun split_lines :: "string \<Rightarrow> string \<Rightarrow> string list" where
  "split_lines cur [] = (if cur = [] then [] else [cur])"
| "split_lines cur (c # cs) =
     (if c = LF then (cur @ [c]) # split_lines [] cs else split_lines (cur @ [c]) cs)"

definition text_lines :: "string \<Rightarrow> string list" where
  "text_lines s = split_lines [] (univ_nl s)"

section \<open>Reader\<close>

datatype psym = Ch char | EOL

datatype pstate =
    START_RECORD | START_FIELD | IN_FIELD | IN_QUOTED_FIELD | QUOTE_IN_QUOTED_FIELD | EAT_CRNL

record parser =
  pst :: pstate
  pfields :: "string list"
  pfield :: string

definition reset_parser :: parser where
  "reset_parser = \<lparr>pst = START_RECORD, pfields = [], pfield = []\<rparr>"

definition save_field :: "parser \<Rightarrow> parser" where
  "save_field p = p\<lparr>pfields := pfields p @ [pfield p], pfield := []\<rparr>"

definition field_limit_exc :: exc where
  "field_limit_exc = CsvError ''field larger than field limit''"

definition newline_exc :: exc where
  "newline_exc = CsvError ''new-line character seen in unquoted field''"

text \<open>\<^verbatim>\<open>parse_add_char\<close>: the field size limit is checked before the character is stored.\<close>

definition add_char :: "nat \<Rightarrow> parser \<Rightarrow> char \<Rightarrow> exc + parser" where
  "add_char lim p c =
     (if lim \<le> length (pfield p) then Inl field_limit_exc else Inr (p\<lparr>pfield := pfield p @ [c]\<rparr>))"

text \<open>The \<^verbatim>\<open>START_FIELD\<close> case of \<^verbatim>\<open>parse_process_char\<close> (also reached from
  \<^verbatim>\<open>START_RECORD\<close> by fall-through, with the state set to \<^verbatim>\<open>START_FIELD\<close>).\<close>

definition start_field :: "nat \<Rightarrow> parser \<Rightarrow> psym \<Rightarrow> exc + parser" where
  "start_field lim p s =
     (case s of
        EOL \<Rightarrow> Inr ((save_field p)\<lparr>pst := START_RECORD\<rparr>)
      | Ch c \<Rightarrow>
          if is_nl c then Inr ((save_field p)\<lparr>pst := EAT_CRNL\<rparr>)
          else if c = QUOTE then Inr (p\<lparr>pst := IN_QUOTED_FIELD\<rparr>)
          else if c = DELIM then Inr (save_field p)
          else sbind (add_char lim p c) (\<lambda>p'. Inr (p'\<lparr>pst := IN_FIELD\<rparr>)))"

definition process :: "nat \<Rightarrow> parser \<Rightarrow> psym \<Rightarrow> exc + parser" where
  "process lim p s =
     (case pst p of
        START_RECORD \<Rightarrow>
          (case s of
             EOL \<Rightarrow> Inr p
           | Ch c \<Rightarrow>
               if is_nl c then Inr (p\<lparr>pst := EAT_CRNL\<rparr>)
               else start_field lim (p\<lparr>pst := START_FIELD\<rparr>) s)
      | START_FIELD \<Rightarrow> start_field lim p s
      | IN_FIELD \<Rightarrow>
          (case s of
             EOL \<Rightarrow> Inr ((save_field p)\<lparr>pst := START_RECORD\<rparr>)
           | Ch c \<Rightarrow>
               if is_nl c then Inr ((save_field p)\<lparr>pst := EAT_CRNL\<rparr>)
               else if c = DELIM then Inr ((save_field p)\<lparr>pst := START_FIELD\<rparr>)
               else add_char lim p c)
      | IN_QUOTED_FIELD \<Rightarrow>
          (case s of
             EOL \<Rightarrow> Inr p
           | Ch c \<Rightarrow>
               if c = QUOTE then Inr (p\<lparr>pst := QUOTE_IN_QUOTED_FIELD\<rparr>)
               else add_char lim p c)
      | QUOTE_IN_QUOTED_FIELD \<Rightarrow>
          (case s of
             EOL \<Rightarrow> Inr ((save_field p)\<lparr>pst := START_RECORD\<rparr>)
           | Ch c \<Rightarrow>
               if c = QUOTE then sbind (add_char lim p c) (\<lambda>p'. Inr (p'\<lparr>pst := IN_QUOTED_FIELD\<rparr>))
               else if c = DELIM then Inr ((save_field p)\<lparr>pst := START_FIELD\<rparr>)
               else if is_nl c then Inr ((save_field p)\<lparr>pst := EAT_CRNL\<rparr>)
               else sbind (add_char lim p c) (\<lambda>p'. Inr (p'\<lparr>pst := IN_FIELD\<rparr>)))
      | EAT_CRNL \<Rightarrow>
          (case s of
             EOL \<Rightarrow> Inr (p\<lparr>pst := START_RECORD\<rparr>)
           | Ch c \<Rightarrow> if is_nl c then Inr p else Inl newline_exc))"

fun run_syms :: "nat \<Rightarrow> parser \<Rightarrow> psym list \<Rightarrow> exc + parser" where
  "run_syms lim p [] = Inr p"
| "run_syms lim p (s # ss) = sbind (process lim p s) (\<lambda>p'. run_syms lim p' ss)"

text \<open>One line: its characters, then the end-of-line sentinel.\<close>

definition parse_line :: "nat \<Rightarrow> parser \<Rightarrow> string \<Rightarrow> exc + parser" where
  "parse_line lim p l = run_syms lim p (map Ch l @ [EOL])"

text \<open>
  \<^verbatim>\<open>Reader_iternext\<close>: read lines until the machine is back in \<^verbatim>\<open>START_RECORD\<close>.
  At the end of the input, a pending field or an open quoted field is saved and the
  record returned (the non-strict dialect); otherwise the reader is exhausted
  (\<open>None\<close>, \<^verbatim>\<open>StopIteration\<close>).
\<close>

fun read_record :: "nat \<Rightarrow> parser \<Rightarrow> string list \<Rightarrow> exc + (string list \<times> string list) option" where
  "read_record lim p [] =
     (if pfield p \<noteq> [] \<or> pst p = IN_QUOTED_FIELD then Inr (Some (pfields (save_field p), []))
      else Inr None)"
| "read_record lim p (l # ls) =
     sbind (parse_line lim p l)
       (\<lambda>p'. if pst p' = START_RECORD then Inr (Some (pfields p', ls)) else read_record lim p' ls)"

definition csv_next :: "nat \<Rightarrow> string list \<Rightarrow> exc + (string list \<times> string list) option" where
  "csv_next lim ls = read_record lim reset_parser ls"

lemma read_record_length:
  "read_record lim p ls = Inr (Some (r, ls')) \<Longrightarrow> length ls' \<le> length ls"
  by (induction lim p ls rule: read_record.induct) (auto split: if_splits intro: le_SucI)

lemma csv_next_shorter:
  "csv_next lim ls = Inr (Some (r, ls')) \<Longrightarrow> length ls' < length ls"
proof (cases ls)
  case Nil
  then show "csv_next lim ls = Inr (Some (r, ls')) \<Longrightarrow> ?thesis"
    by (simp add: csv_next_def reset_parser_def)
next
  case (Cons l ls1)
  then show "csv_next lim ls = Inr (Some (r, ls')) \<Longrightarrow> ?thesis"
    by (auto simp: csv_next_def split: if_splits dest: read_record_length)
qed

text \<open>The reader as a generator: one record per step until the input is exhausted.\<close>

function csv_rows :: "nat \<Rightarrow> string list \<Rightarrow> string list gen" where
  "csv_rows lim ls =
     (case csv_next lim ls of
        Inl e \<Rightarrow> Raise [] e
      | Inr None \<Rightarrow> Stop []
      | Inr (Some (r, ls')) \<Rightarrow> Yield [] r (csv_rows lim ls'))"
  by pat_completeness auto
termination
  by (relation "measure (\<lambda>(lim, ls). length ls)") (auto dest: csv_next_shorter)

declare csv_rows.simps [simp del]

section \<open>DictReader\<close>

text \<open>\<^verbatim>\<open>DictReader.__next__\<close> for a non-blank row \<open>r\<close> under the header \<open>h\<close>.\<close>

definition mk_dict_row :: "string list \<Rightarrow> string list \<Rightarrow> pyrow" where
  "mk_dict_row h r =
     (let d = dict_from_pairs (zip (map KStr h) (map VStr r))
      in if length h < length r then dict_set d KNone (VList (drop (length h) r))
         else if length r < length h then foldl (\<lambda>d k. dict_set d (KStr k) VNone) d (drop (length r) h)
         else d)"

fun dict_rows :: "string list \<Rightarrow> string list gen \<Rightarrow> pyrow gen" where
  "dict_rows h (Yield evs r g) =
     (if r = [] then gen_prefix evs (dict_rows h g) else Yield evs (mk_dict_row h r) (dict_rows h g))"
| "dict_rows h (Stop evs) = Stop evs"
| "dict_rows h (Raise evs e) = Raise evs e"

text \<open>The first record read is the header (\<^verbatim>\<open>fieldnames\<close>); an empty input has none
  and yields nothing.\<close>

definition dict_reader :: "nat \<Rightarrow> string list \<Rightarrow> pyrow gen" where
  "dict_reader lim ls =
     (case csv_next lim ls of
        Inl e \<Rightarrow> Raise [] e
      | Inr None \<Rightarrow> Stop []
      | Inr (Some (h, ls')) \<Rightarrow> dict_rows h (csv_rows lim ls'))"

definition csv_field_size_limit :: nat where
  "csv_field_size_limit = 131072"

end
