(* ===== verification/CsvRoundtrip.thy ===== *)
theory CsvRoundtrip
  imports Csv
begin

text \<open>
  The writer and the reader of \<^verbatim>\<open>Csv\<close> agree: a file that \<^verbatim>\<open>csv.writer\<close> wrote,
  read back in text mode, yields the rows written, provided no field holds a carriage
  return (universal newlines turn it into a line feed) and no field is longer than the
  field size limit (\<open>csv_roundtrip\<close>).

  The proof views the reader at the level of symbols: \<open>syms_of_lines\<close> flattens the
  lines the reader consumes into one symbol stream, \<open>read_syms\<close> is the reader over
  that stream (it stops where an end of line brings the machine back to
  \<^verbatim>\<open>START_RECORD\<close>), and \<open>read_record_syms\<close> shows it computes what
  \<open>read_record\<close> computes. On the stream, each field is one lemma
  (\<open>read_syms_unquoted\<close>, \<open>read_syms_quoted\<close>), fields compose over the
  delimiters (\<open>read_syms_fields\<close>), and a row ends at its line feed
  (\<open>read_syms_row\<close>).
\<close>

definition ins_eol :: "string \<Rightarrow> psym list" where
  "ins_eol s = concat (map (\<lambda>c. if c = LF then [Ch c, EOL] else [Ch c]) s)"

definition syms_of_lines :: "string list \<Rightarrow> psym list" where
  "syms_of_lines ls = concat (map (\<lambda>l. map Ch l @ [EOL]) ls)"

definition qchar :: "char \<Rightarrow> string" where
  "qchar c = (if c = QUOTE then [QUOTE, QUOTE] else [c])"

definition render_row :: "string list \<Rightarrow> string" where
  "render_row r = (if r = [[]] then [QUOTE, QUOTE] else csv_join (map csv_field r))"

definition after_field :: "parser \<Rightarrow> string \<Rightarrow> parser" where
  "after_field p s =
     (if csv_needs_quote s then p\<lparr>pst := QUOTE_IN_QUOTED_FIELD, pfield := s\<rparr>
      else if s = [] then p else p\<lparr>pst := IN_FIELD, pfield := s\<rparr>)"

definition field_end :: "parser \<Rightarrow> string \<Rightarrow> bool" where
  "field_end p s \<longleftrightarrow>
     (pst p \<in> {IN_FIELD, QUOTE_IN_QUOTED_FIELD} \<and> pfield p = s) \<or>
     (s = [] \<and> pfield p = [] \<and> pst p \<in> {START_RECORD, START_FIELD})"

fun read_syms :: "nat \<Rightarrow> parser \<Rightarrow> psym list \<Rightarrow> exc + (string list \<times> psym list) option" where
  "read_syms lim p [] =
     (if pfield p \<noteq> [] \<or> pst p = IN_QUOTED_FIELD then Inr (Some (pfields (save_field p), []))
      else Inr None)"
| "read_syms lim p (s # ss) =
     sbind (process lim p s)
       (\<lambda>p'. if s = EOL \<and> pst p' = START_RECORD then Inr (Some (pfields p', ss))
             else read_syms lim p' ss)"

lemma parser_update_order [simp]:
  "p\<lparr>pfield := a, pst := b\<rparr> = p\<lparr>pst := b, pfield := a\<rparr>"
  "p\<lparr>pfields := fs, pst := b\<rparr> = p\<lparr>pst := b, pfields := fs\<rparr>"
  "p\<lparr>pfield := a, pfields := fs\<rparr> = p\<lparr>pfields := fs, pfield := a\<rparr>"
  by (cases p; simp)+

lemma ins_eol_simps [simp]:
  "ins_eol [] = []"
  "ins_eol (c # s) = (if c = LF then [Ch c, EOL] else [Ch c]) @ ins_eol s"
  "ins_eol (s @ t) = ins_eol s @ ins_eol t"
  by (simp_all add: ins_eol_def)

lemma syms_of_lines_simps [simp]:
  "syms_of_lines [] = []"
  "syms_of_lines (l # ls) = map Ch l @ EOL # syms_of_lines ls"
  "syms_of_lines (ls @ ls') = syms_of_lines ls @ syms_of_lines ls'"
  by (simp_all add: syms_of_lines_def)

lemma read_syms_chars:
  "read_syms lim p (map Ch cs @ ss) = sbind (run_syms lim p (map Ch cs)) (\<lambda>p'. read_syms lim p' ss)"
  by (induction cs arbitrary: p) (simp_all add: sbind_def split: sum.splits)

lemma run_syms_append:
  "run_syms lim p (xs @ ys) = sbind (run_syms lim p xs) (\<lambda>p'. run_syms lim p' ys)"
  by (induction xs arbitrary: p) (simp_all add: sbind_def split: sum.splits)

lemma read_record_syms:
  "read_syms lim p (syms_of_lines ls) =
     map_sum id (map_option (\<lambda>(r, ls'). (r, syms_of_lines ls'))) (read_record lim p ls)"
proof (induction ls arbitrary: p)
  case Nil
  then show ?case by simp
next
  case (Cons l ls)
  show ?case
  proof (cases "run_syms lim p (map Ch l)")
    case (Inl e)
    then show ?thesis
      by (simp add: read_syms_chars parse_line_def run_syms_append)
  next
    case (Inr p1)
    then show ?thesis
      using Cons.IH
      by (simp add: read_syms_chars parse_line_def run_syms_append sbind_def split: sum.splits)
  qed
qed

lemma map_Ch_EOL_inj:
  "map Ch x @ EOL # a = map Ch y @ EOL # b \<Longrightarrow> x = y \<and> a = b"
proof (induction x arbitrary: y)
  case Nil
  then show ?case by (cases y) auto
next
  case (Cons c x)
  then show ?case by (cases y) auto
qed

lemma syms_of_lines_inj: "syms_of_lines xs = syms_of_lines ys \<Longrightarrow> xs = ys"
proof (induction xs arbitrary: ys)
  case Nil
  then show ?case by (cases ys) auto
next
  case (Cons x xs)
  then show ?case by (cases ys) (auto dest: map_Ch_EOL_inj)
qed

lemma read_record_from_syms:
  assumes "read_syms lim p (syms_of_lines ls) = Inr (Some (r, syms_of_lines ls2))"
  shows "read_record lim p ls = Inr (Some (r, ls2))"
proof -
  from assms read_record_syms [of lim p ls]
  obtain ls' where rr: "read_record lim p ls = Inr (Some (r, ls'))"
    and eq: "syms_of_lines ls' = syms_of_lines ls2"
    by (cases "read_record lim p ls") (auto split: option.splits)
  from eq have "ls' = ls2" by (rule syms_of_lines_inj)
  with rr show ?thesis by simp
qed


lemma read_syms_step:
  "process lim p s = Inr p' \<Longrightarrow> (s = EOL \<longrightarrow> pst p' \<noteq> START_RECORD) \<Longrightarrow>
     read_syms lim p (s # ss) = read_syms lim p' ss"
  by (cases "s = EOL") auto

lemma ins_eol_no_LF: "LF \<notin> set s \<Longrightarrow> ins_eol s = map Ch s"
  by (induction s) auto

lemma read_syms_in_field:
  assumes "pst p = IN_FIELD" and "\<forall>c\<in>set cs. \<not> is_nl c \<and> c \<noteq> DELIM"
    and "length (pfield p) + length cs \<le> lim"
  shows "read_syms lim p (map Ch cs @ ss) = read_syms lim (p\<lparr>pfield := pfield p @ cs\<rparr>) ss"
  using assms
proof (induction cs arbitrary: p)
  case Nil
  then show ?case by simp
next
  case (Cons c cs)
  let ?p1 = "p\<lparr>pfield := pfield p @ [c]\<rparr>"
  from Cons.prems have "process lim p (Ch c) = Inr ?p1"
    by (simp add: process_def add_char_def)
  then have "read_syms lim p (map Ch (c # cs) @ ss) = read_syms lim ?p1 (map Ch cs @ ss)"
    by simp
  also have "\<dots> = read_syms lim (?p1\<lparr>pfield := pfield ?p1 @ cs\<rparr>) ss"
    using Cons.prems by (intro Cons.IH) auto
  finally show ?case by simp
qed

lemma read_syms_unquoted:
  assumes "s \<noteq> []" and "\<not> csv_needs_quote s" and "length s \<le> lim"
    and "pfield p = []" and "pst p = START_RECORD \<or> pst p = START_FIELD"
  shows "read_syms lim p (ins_eol s @ ss) = read_syms lim (p\<lparr>pst := IN_FIELD, pfield := s\<rparr>) ss"
proof -
  obtain c cs where s: "s = c # cs" using assms(1) by (cases s) auto
  from assms(2) s have c: "\<not> is_nl c" "c \<noteq> QUOTE" "c \<noteq> DELIM" "c \<noteq> LF"
    and cs: "\<forall>c\<in>set cs. \<not> is_nl c \<and> c \<noteq> DELIM" "LF \<notin> set cs"
    by (auto simp: csv_needs_quote_def is_nl_def)
  let ?p1 = "p\<lparr>pst := IN_FIELD, pfield := [c]\<rparr>"
  have "process lim p (Ch c) = Inr ?p1"
    using assms(3-5) c s by (auto simp: process_def start_field_def add_char_def)
  then have "read_syms lim p (ins_eol s @ ss) = read_syms lim ?p1 (map Ch cs @ ss)"
    using c cs s by (simp add: ins_eol_no_LF)
  also have "\<dots> = read_syms lim (?p1\<lparr>pfield := pfield ?p1 @ cs\<rparr>) ss"
    using assms(3) s cs by (intro read_syms_in_field) auto
  finally show ?thesis using s by simp
qed

lemma read_syms_quoted_body:
  assumes "pst p = IN_QUOTED_FIELD" and "CR \<notin> set s" and "length (pfield p) + length s \<le> lim"
  shows "read_syms lim p (ins_eol (concat (map qchar s)) @ ss) =
           read_syms lim (p\<lparr>pfield := pfield p @ s\<rparr>) ss"
  using assms
proof (induction s arbitrary: p)
  case Nil
  then show ?case by simp
next
  case (Cons c s)
  let ?p1 = "p\<lparr>pfield := pfield p @ [c]\<rparr>"
  have step: "read_syms lim p (ins_eol (qchar c) @ ss') = read_syms lim ?p1 ss'" for ss'
  proof (cases "c = QUOTE")
    case True
    let ?p0 = "p\<lparr>pst := QUOTE_IN_QUOTED_FIELD\<rparr>"
    have "process lim p (Ch QUOTE) = Inr ?p0" using Cons.prems by (simp add: process_def)
    moreover have "process lim ?p0 (Ch QUOTE) = Inr ?p1"
      using Cons.prems True by (simp add: process_def add_char_def)
    ultimately show ?thesis using True by (simp add: qchar_def)
  next
    case False
    have p1: "process lim p (Ch c) = Inr ?p1"
      using Cons.prems False by (simp add: process_def add_char_def)
    show ?thesis
    proof (cases "c = LF")
      case True
      have "process lim ?p1 EOL = Inr ?p1" using Cons.prems by (simp add: process_def)
      with p1 True Cons.prems show ?thesis by (simp add: qchar_def)
    next
      case False
      with p1 \<open>c \<noteq> QUOTE\<close> show ?thesis by (simp add: qchar_def)
    qed
  qed
  have "read_syms lim p (ins_eol (concat (map qchar (c # s))) @ ss) =
          read_syms lim ?p1 (ins_eol (concat (map qchar s)) @ ss)"
    using step by simp
  also have "\<dots> = read_syms lim (?p1\<lparr>pfield := pfield ?p1 @ s\<rparr>) ss"
    using Cons.prems by (intro Cons.IH) auto
  finally show ?case by simp
qed

lemma read_syms_quoted:
  assumes "CR \<notin> set s" and "length s \<le> lim"
    and "pfield p = []" and "pst p = START_RECORD \<or> pst p = START_FIELD"
  shows "read_syms lim p (ins_eol (csv_quote s) @ ss) =
           read_syms lim (p\<lparr>pst := QUOTE_IN_QUOTED_FIELD, pfield := s\<rparr>) ss"
proof -
  let ?p1 = "p\<lparr>pst := IN_QUOTED_FIELD\<rparr>"
  have "process lim p (Ch QUOTE) = Inr ?p1"
    using assms(4) by (auto simp: process_def start_field_def is_nl_def)
  then have "read_syms lim p (ins_eol (csv_quote s) @ ss) =
               read_syms lim ?p1 (ins_eol (concat (map qchar s)) @ Ch QUOTE # ss)"
    by (simp add: csv_quote_def qchar_def [abs_def])
  also have "\<dots> = read_syms lim (?p1\<lparr>pfield := s\<rparr>) (Ch QUOTE # ss)"
    using assms by (subst read_syms_quoted_body) auto
  also have "\<dots> = read_syms lim (p\<lparr>pst := QUOTE_IN_QUOTED_FIELD, pfield := s\<rparr>) ss"
    by (simp add: process_def)
  finally show ?thesis .
qed

lemma read_syms_field:
  assumes "CR \<notin> set s" and "length s \<le> lim"
    and "pfield p = []" and "pst p = START_RECORD \<or> pst p = START_FIELD"
  shows "read_syms lim p (ins_eol (csv_field s) @ ss) = read_syms lim (after_field p s) ss"
  using assms read_syms_quoted [OF assms] read_syms_unquoted [of s lim p]
  by (auto simp: csv_field_def after_field_def)

lemma after_field_end:
  "pfield p = [] \<Longrightarrow> pst p = START_RECORD \<or> pst p = START_FIELD \<Longrightarrow> field_end (after_field p s) s"
  by (auto simp: after_field_def field_end_def)

lemma after_field_fields [simp]: "pfields (after_field p s) = pfields p"
  by (simp add: after_field_def)

lemma after_field_start_record:
  "pst (after_field p s) = START_RECORD \<Longrightarrow> s = [] \<and> pst p = START_RECORD"
  by (auto simp: after_field_def split: if_splits)

lemma field_end_delim:
  "field_end p s \<Longrightarrow>
     process lim p (Ch DELIM) = Inr (p\<lparr>pst := START_FIELD, pfields := pfields p @ [s], pfield := []\<rparr>)"
  by (auto simp: field_end_def process_def start_field_def save_field_def is_nl_def)

lemma field_end_newline:
  assumes "field_end p s" and "pst p \<noteq> START_RECORD"
  shows "read_syms lim p (Ch LF # EOL # ss) = Inr (Some (pfields p @ [s], ss))"
proof -
  let ?p1 = "p\<lparr>pst := EAT_CRNL, pfields := pfields p @ [s], pfield := []\<rparr>"
  have "process lim p (Ch LF) = Inr ?p1"
    using assms by (auto simp: field_end_def process_def start_field_def save_field_def is_nl_def)
  moreover have "process lim ?p1 EOL = Inr (?p1\<lparr>pst := START_RECORD\<rparr>)"
    by (simp add: process_def)
  ultimately show ?thesis by simp
qed

lemma read_syms_fields:
  assumes "\<forall>g\<in>set (f # fs). CR \<notin> set g \<and> length g \<le> lim"
    and "pfield p = []" and "pst p = START_RECORD \<or> pst p = START_FIELD"
    and "pst p = START_RECORD \<longrightarrow> fs \<noteq> [] \<or> f \<noteq> []"
  shows "read_syms lim p (ins_eol (csv_field f @ concat (map (\<lambda>g. DELIM # csv_field g) fs)) @ Ch LF # EOL # ss) =
           Inr (Some (pfields p @ f # fs, ss))"
  using assms
proof (induction fs arbitrary: f p)
  case Nil
  have "read_syms lim p (ins_eol (csv_field f) @ Ch LF # EOL # ss) =
          read_syms lim (after_field p f) (Ch LF # EOL # ss)"
    using Nil.prems by (intro read_syms_field) auto
  also have "\<dots> = Inr (Some (pfields p @ [f], ss))"
    using Nil.prems after_field_start_record [of p f]
    by (subst field_end_newline [OF after_field_end]) auto
  finally show ?case by simp
next
  case (Cons g gs)
  let ?p1 = "after_field p f"
  let ?p2 = "?p1\<lparr>pst := START_FIELD, pfields := pfields ?p1 @ [f], pfield := []\<rparr>"
  have "read_syms lim p (ins_eol (csv_field f @ concat (map (\<lambda>g. DELIM # csv_field g) (g # gs))) @ Ch LF # EOL # ss) =
          read_syms lim ?p1 (Ch DELIM # ins_eol (csv_field g @ concat (map (\<lambda>g. DELIM # csv_field g) gs)) @ Ch LF # EOL # ss)"
    using Cons.prems by (simp add: read_syms_field)
  also have "\<dots> = read_syms lim ?p2 (ins_eol (csv_field g @ concat (map (\<lambda>g. DELIM # csv_field g) gs)) @ Ch LF # EOL # ss)"
    using Cons.prems by (simp add: field_end_delim [OF after_field_end])
  also have "\<dots> = Inr (Some (pfields ?p2 @ g # gs, ss))"
    using Cons.prems by (intro Cons.IH) auto
  finally show ?case by simp
qed

lemma CR_not_in_render:
  "\<forall>f\<in>set r. CR \<notin> set f \<Longrightarrow> CR \<notin> set (render_row r)"
proof -
  have field: "CR \<notin> set f \<Longrightarrow> CR \<notin> set (csv_field f)" for f
    by (auto simp: csv_field_def csv_quote_def)
  have "\<forall>f\<in>set r. CR \<notin> set f \<Longrightarrow> CR \<notin> set (csv_join (map csv_field r))"
    by (cases r) (auto dest: field)
  then show "\<forall>f\<in>set r. CR \<notin> set f \<Longrightarrow> CR \<notin> set (render_row r)"
    by (simp add: render_row_def)
qed

lemma read_syms_row:
  assumes "\<forall>f\<in>set r. CR \<notin> set f \<and> length f \<le> lim"
  shows "read_syms lim reset_parser (ins_eol (render_row r @ [LF]) @ ss) = Inr (Some (r, ss))"
proof (cases "r = [[]]")
  case True
  have "read_syms lim reset_parser (ins_eol (csv_quote []) @ Ch LF # EOL # ss) =
          read_syms lim (reset_parser\<lparr>pst := QUOTE_IN_QUOTED_FIELD, pfield := []\<rparr>) (Ch LF # EOL # ss)"
    by (rule read_syms_quoted) (simp_all add: reset_parser_def)
  also have "\<dots> = Inr (Some ([[]], ss))"
    by (subst field_end_newline) (simp_all add: field_end_def reset_parser_def)
  finally show ?thesis using True by (simp add: render_row_def csv_quote_def)
next
  case False
  show ?thesis
  proof (cases r)
    case Nil
    then show ?thesis
      by (simp add: render_row_def process_def reset_parser_def is_nl_def)
  next
    case (Cons f fs)
    with False have render: "render_row r = csv_field f @ concat (map (\<lambda>g. DELIM # csv_field g) fs)"
      by (auto simp: render_row_def comp_def)
    have "read_syms lim reset_parser
            (ins_eol (csv_field f @ concat (map (\<lambda>g. DELIM # csv_field g) fs)) @ Ch LF # EOL # ss) =
          Inr (Some (pfields reset_parser @ f # fs, ss))"
      using assms Cons False by (intro read_syms_fields) (auto simp: reset_parser_def)
    with Cons render show ?thesis
      by (simp add: reset_parser_def)
  qed
qed

lemma univ_nl_row:
  "CR \<notin> set s \<Longrightarrow> univ_nl (s @ CR # LF # t) = s @ LF # univ_nl t"
proof (induction s)
  case Nil
  then show ?case by simp
next
  case (Cons c cs)
  then show ?case by (cases cs) auto
qed

lemma split_lines_LF_append:
  "split_lines cur (s @ LF # t) = split_lines cur (s @ [LF]) @ split_lines [] t"
  by (induction s arbitrary: cur) auto

lemma syms_of_split_lines:
  "syms_of_lines (split_lines cur (s @ [LF])) = map Ch cur @ ins_eol (s @ [LF])"
  by (induction s arbitrary: cur) auto

lemma csv_write_row_render: "csv_write_row r = render_row r @ [CR, LF]"
  by (simp add: csv_write_row_def render_row_def)

definition row_lines :: "string list \<Rightarrow> string list" where
  "row_lines r = split_lines [] (render_row r @ [LF])"

lemma text_lines_rows:
  assumes "\<forall>r\<in>set rows. \<forall>f\<in>set r. CR \<notin> set f"
  shows "text_lines (concat (map csv_write_row rows)) = concat (map row_lines rows)"
proof -
  have "univ_nl (concat (map csv_write_row rows)) = concat (map (\<lambda>r. render_row r @ [LF]) rows)"
    using assms
  proof (induction rows)
    case Nil
    then show ?case by simp
  next
    case (Cons r rows)
    then have "CR \<notin> set (render_row r)" by (simp add: CR_not_in_render)
    with Cons show ?case by (simp add: csv_write_row_render univ_nl_row)
  qed
  moreover have "split_lines [] (concat (map (\<lambda>r. render_row r @ [LF]) rows)) = concat (map row_lines rows)"
  proof (induction rows)
    case (Cons r rows)
    have "split_lines [] (render_row r @ LF # concat (map (\<lambda>r. render_row r @ [LF]) rows)) =
            row_lines r @ split_lines [] (concat (map (\<lambda>r. render_row r @ [LF]) rows))"
      unfolding row_lines_def by (rule split_lines_LF_append)
    with Cons.IH show ?case by simp
  qed simp
  ultimately show ?thesis by (simp add: text_lines_def)
qed

lemma csv_next_row:
  assumes "\<forall>f\<in>set r. CR \<notin> set f \<and> length f \<le> lim"
  shows "csv_next lim (row_lines r @ ls) = Inr (Some (r, ls))"
proof -
  have "read_syms lim reset_parser (syms_of_lines (row_lines r @ ls)) = Inr (Some (r, syms_of_lines ls))"
    using read_syms_row [OF assms] by (simp add: row_lines_def syms_of_split_lines)
  then show ?thesis unfolding csv_next_def by (rule read_record_from_syms)
qed

lemma csv_rows_Nil: "csv_rows lim [] = Stop []"
  by (simp add: csv_rows.simps csv_next_def reset_parser_def)

lemma csv_rows_written:
  assumes "\<forall>r\<in>set rows. \<forall>f\<in>set r. CR \<notin> set f \<and> length f \<le> lim"
  shows "csv_rows lim (text_lines (concat (map csv_write_row rows))) = gen_of_list rows"
proof -
  have "csv_rows lim (concat (map row_lines rows)) = gen_of_list rows"
    using assms
  proof (induction rows)
    case Nil
    then show ?case by (simp add: csv_rows_Nil)
  next
    case (Cons r rows)
    then show ?case by (simp add: csv_rows.simps [of lim "row_lines r @ _"] csv_next_row)
  qed
  moreover have "text_lines (concat (map csv_write_row rows)) = concat (map row_lines rows)"
    using assms by (intro text_lines_rows) auto
  ultimately show ?thesis by simp
qed

lemma dict_reader_written:
  assumes "\<forall>r\<in>set (h # rows). \<forall>f\<in>set r. CR \<notin> set f \<and> length f \<le> lim"
  shows "dict_reader lim (text_lines (concat (map csv_write_row (h # rows)))) = dict_rows h (gen_of_list rows)"
proof -
  define ls where "ls = text_lines (concat (map csv_write_row (h # rows)))"
  have rows: "csv_rows lim ls = Yield [] h (gen_of_list rows)"
    unfolding ls_def using csv_rows_written [OF assms] by simp
  have "dict_reader lim ls = dict_rows h (gen_of_list rows)"
  proof (cases "csv_next lim ls")
    case (Inl e)
    then show ?thesis using rows by (simp add: csv_rows.simps [of lim ls])
  next
    case (Inr x)
    then show ?thesis using rows
      by (cases x) (auto simp: csv_rows.simps [of lim ls] dict_reader_def)
  qed
  then show ?thesis by (simp only: ls_def)
qed

lemma mk_dict_row_same_length:
  "distinct h \<Longrightarrow> length r = length h \<Longrightarrow> mk_dict_row h r = zip (map KStr h) (map VStr r)"
  by (simp add: mk_dict_row_def Let_def dict_from_pairs_distinct distinct_map inj_on_def)

lemma dict_rows_of_list:
  "[] \<notin> set rows \<Longrightarrow> dict_rows h (gen_of_list rows) = gen_of_list (map (mk_dict_row h) rows)"
  by (induction rows) auto

text \<open>C6: a file written row by row with csv.writer and read back in text mode with the csv reader yields exactly the rows written, provided no field holds a carriage return and no field is longer than the field size limit.\<close>

theorem csv_roundtrip:
  assumes "\<forall>r\<in>set rows. \<forall>f\<in>set r. CR \<notin> set f \<and> length f \<le> lim"
  shows "csv_rows lim (text_lines (concat (map csv_write_row rows))) = gen_of_list rows"
  using assms by (rule csv_rows_written)

theorem csv_roundtrip_witness:
  "csv_rows csv_field_size_limit
     (text_lines (concat (map csv_write_row [[''id'', ''name''], [''0'', [CHR ''A'', DELIM, QUOTE, CHR ''n'', LF]], [[]]]))) =
   gen_of_list [[''id'', ''name''], [''0'', [CHR ''A'', DELIM, QUOTE, CHR ''n'', LF]], [[]]]"
proof -
  have h: "\<forall>r\<in>set [[''id'', ''name''], [''0'', [CHR ''A'', DELIM, QUOTE, CHR ''n'', LF]], [[]]].
             \<forall>f\<in>set r. CR \<notin> set f \<and> length f \<le> csv_field_size_limit"
    by (simp add: csv_field_size_limit_def)
  show ?thesis by (rule csv_roundtrip [OF h])
qed

end
