(* ===== verification/World.thy ===== *)
theory World
  imports Gen
begin

text \<open>
  The part of the machine the program touches: the file system at the two paths of
  \<^verbatim>\<open>src/pipeline.py\<close> (\<^verbatim>\<open>/tmp/users.csv\<close>, \<^verbatim>\<open>/tmp/users.db\<close>), each path holding
  nothing, a directory, a text file (its decoded contents), or an SQLite database,
  whose only relevant content is the table \<^verbatim>\<open>users\<close>. \<open>DbFile None\<close> is the
  zero-byte file \<^verbatim>\<open>sqlite3.connect\<close> creates, before any statement has written a
  table to it. \<open>Unreachable\<close> is a path whose parent directory is missing, where no
  file can be created.

  A stored row is the list of the five values bound to
  \<^verbatim>\<open>(id, name, email, description, processed_at)\<close>. \<open>STime t\<close> stands for the
  text the \<^verbatim>\<open>sqlite3\<close> default datetime adapter stores for the timestamp \<open>t\<close>;
  SQLite's column type affinity is not modelled, since on the pipeline's path every
  value already has its column's type.
\<close>

datatype sqlval = SNull | SInt int | SText string | STime timestamp

type_synonym sqlrow = "sqlval list"

datatype entry =
    Missing
  | Unreachable
  | Directory
  | TextFile string
  | DbFile "sqlrow list option"

type_synonym fs = "path \<Rightarrow> entry"

text \<open>\<^verbatim>\<open>Path.exists() and Path.is_file()\<close>.\<close>

fun is_regular_file :: "entry \<Rightarrow> bool" where
  "is_regular_file (TextFile _) = True"
| "is_regular_file (DbFile _) = True"
| "is_regular_file _ = False"

end
