(* ===== verification/Extract.thy ===== *)
theory Extract
  imports World Csv
begin

text \<open>
  \<^verbatim>\<open>extract_users\<close> (\<^verbatim>\<open>src/pipeline.py\<close>, lines 83-90): open the file in text mode
  (the first resumption raises if it cannot be opened), wrap it in
  \<^verbatim>\<open>csv.DictReader\<close>, print \<^verbatim>\<open>E: start extract\<close>, then print
  \<^verbatim>\<open>E: extract row #i\<close> before yielding the \<open>i\<close>-th row, and
  \<^verbatim>\<open>E: extract finished.\<close> once the reader is exhausted. Exceptions of the reader
  (the field size limit, a bad line end) end the generator. A database file that
  \<^verbatim>\<open>sqlite3.connect\<close> created and no statement has written is empty and reads as
  an empty text file; a database holding a table is not UTF-8 text, and the first read
  raises \<^verbatim>\<open>UnicodeDecodeError\<close>.
\<close>

fun extract_loop :: "nat \<Rightarrow> pyrow gen \<Rightarrow> pyrow gen" where
  "extract_loop i (Yield evs r g) = Yield (evs @ [E_row i]) r (extract_loop (Suc i) g)"
| "extract_loop i (Stop evs) = Stop (evs @ [E_finished])"
| "extract_loop i (Raise evs e) = Raise evs e"

definition extract_users :: "fs \<Rightarrow> path \<Rightarrow> pyrow gen" where
  "extract_users fs p =
     (case fs p of
        TextFile s \<Rightarrow> gen_prefix [E_start] (extract_loop 0 (dict_reader csv_field_size_limit (text_lines s)))
      | DbFile None \<Rightarrow> gen_prefix [E_start] (extract_loop 0 (dict_reader csv_field_size_limit (text_lines [])))
      | DbFile (Some _) \<Rightarrow> Raise [E_start] (UnicodeDecodeError p)
      | Directory \<Rightarrow> Raise [] (IsADirectoryError p)
      | Missing \<Rightarrow> Raise [] (FileNotFoundError p)
      | Unreachable \<Rightarrow> Raise [] (FileNotFoundError p))"

section \<open>Lemmas\<close>

lemma extract_loop_upto:
  "extract_loop i (gen_upto f fin x i m) = gen_upto (\<lambda>k. f k @ [E_row k]) (fin @ [E_finished]) x i m"
  by (induction m arbitrary: i) auto

lemma extract_loop_items [simp]: "gen_items (extract_loop i g) = gen_items g"
  by (induction i g rule: extract_loop.induct) auto

lemma extract_loop_exc [simp]: "gen_exc (extract_loop i g) = gen_exc g"
  by (induction i g rule: extract_loop.induct) auto

end
