(* ===== verification/CsvSafety.thy ===== *)
theory CsvSafety
  imports CsvRoundtrip Extract
begin

text \<open>
  Which exceptions the reader can raise on what \<^verbatim>\<open>extract_users\<close> feeds it. A line of
  a file read in text mode holds no carriage return (universal newlines turned every
  one into a line feed) and no line feed before its last character (\<open>good_line\<close>).
  On such lines the state \<^verbatim>\<open>EAT_CRNL\<close> is entered only by a line's final line feed
  and left by the end-of-line sentinel that follows it, so the error
  \<^verbatim>\<open>new-line character seen in unquoted field\<close> cannot occur: the only exception of
  the reader, and so of the extract stage on a text file, is the field size limit.
\<close>

definition good_line :: "string \<Rightarrow> bool" where
  "good_line l \<longleftrightarrow> CR \<notin> set l \<and> LF \<notin> set (butlast l)"

section \<open>Text-mode lines\<close>

lemma CR_not_in_univ_nl: "CR \<notin> set (univ_nl s)"
  by (induction s rule: univ_nl.induct) auto

lemma split_lines_good:
  "LF \<notin> set cur \<Longrightarrow> CR \<notin> set cur \<Longrightarrow> CR \<notin> set s \<Longrightarrow> \<forall>l\<in>set (split_lines cur s). good_line l"
  by (induction cur s rule: split_lines.induct) (auto simp: good_line_def butlast_append dest: in_set_butlastD)

lemma text_lines_good: "\<forall>l\<in>set (text_lines s). good_line l"
  unfolding text_lines_def by (rule split_lines_good) (simp_all add: CR_not_in_univ_nl)

section \<open>The state machine\<close>

lemma process_EOL:
  "\<exists>p'. process lim p EOL = Inr p' \<and> pst p' \<noteq> EAT_CRNL"
  by (cases "pst p") (simp_all add: process_def start_field_def save_field_def)

lemma process_exc:
  "process lim p s = Inl e \<Longrightarrow> e = field_limit_exc \<or> (pst p = EAT_CRNL \<and> e = newline_exc)"
  by (cases "pst p"; cases s)
     (auto simp: process_def start_field_def add_char_def sbind_def split: if_splits sum.splits)

lemma process_not_nl:
  "pst p \<noteq> EAT_CRNL \<Longrightarrow> \<not> is_nl c \<Longrightarrow> process lim p (Ch c) = Inr p' \<Longrightarrow> pst p' \<noteq> EAT_CRNL"
  by (cases "pst p")
     (auto simp: process_def start_field_def add_char_def save_field_def sbind_def
           split: if_splits sum.splits)

lemma run_syms_not_nl:
  assumes "\<forall>c\<in>set cs. \<not> is_nl c" and "pst p \<noteq> EAT_CRNL"
  shows "(run_syms lim p (map Ch cs) = Inl e \<longrightarrow> e = field_limit_exc) \<and>
         (run_syms lim p (map Ch cs) = Inr p' \<longrightarrow> pst p' \<noteq> EAT_CRNL)"
  using assms
proof (induction cs arbitrary: p)
  case (Cons c cs)
  show ?case
  proof (cases "process lim p (Ch c)")
    case (Inl e')
    then show ?thesis using process_exc [OF Inl] Cons.prems by auto
  next
    case (Inr p1)
    then have "pst p1 \<noteq> EAT_CRNL" using process_not_nl Cons.prems by auto
    then show ?thesis using Cons.IH [of p1] Cons.prems Inr by simp
  qed
qed auto

lemma run_syms_LF_EOL: "run_syms lim p [Ch LF, EOL] = Inl e \<Longrightarrow> e = field_limit_exc"
proof (cases "process lim p (Ch LF)")
  case (Inl e')
  moreover have "pst p \<noteq> EAT_CRNL" using Inl by (auto simp: process_def is_nl_def)
  ultimately show "run_syms lim p [Ch LF, EOL] = Inl e \<Longrightarrow> e = field_limit_exc"
    using process_exc [OF Inl] by simp
next
  case (Inr p1)
  then show "run_syms lim p [Ch LF, EOL] = Inl e \<Longrightarrow> e = field_limit_exc"
    using process_EOL [of lim p1] by auto
qed

lemma not_in_butlast_last: "x \<in> set l \<Longrightarrow> x \<notin> set (butlast l) \<Longrightarrow> l \<noteq> [] \<and> last l = x"
  by (induction l) (auto split: if_splits)

lemma good_line_split:
  assumes "good_line l"
  obtains cs where "\<forall>c\<in>set cs. \<not> is_nl c" and "l = cs \<or> l = cs @ [LF]"
proof (cases "l \<noteq> [] \<and> last l = LF")
  case True
  then have "l = butlast l @ [LF]" by (metis append_butlast_last_id)
  moreover have "\<forall>c\<in>set (butlast l). \<not> is_nl c"
    using assms by (auto simp: good_line_def is_nl_def dest: in_set_butlastD)
  ultimately show ?thesis using that by blast
next
  case False
  then have "LF \<notin> set l" using assms not_in_butlast_last [of LF l] by (auto simp: good_line_def)
  then show ?thesis using that assms by (auto simp: good_line_def is_nl_def)
qed

lemma parse_line_exc:
  "good_line l \<Longrightarrow> pst p \<noteq> EAT_CRNL \<Longrightarrow> parse_line lim p l = Inl e \<Longrightarrow> e = field_limit_exc"
proof -
  assume g: "good_line l" and st: "pst p \<noteq> EAT_CRNL" and pe: "parse_line lim p l = Inl e"
  obtain cs where nl: "\<forall>c\<in>set cs. \<not> is_nl c" and l: "l = cs \<or> l = cs @ [LF]"
    using good_line_split [OF g] by blast
  have tail: "run_syms lim p1 [EOL] = Inl e' \<Longrightarrow> e' = field_limit_exc" for p1 e'
    using process_EOL [of lim p1] by auto
  show "e = field_limit_exc"
  proof (cases "run_syms lim p (map Ch cs)")
    case (Inl e')
    with l pe have "e = e'" by (auto simp: parse_line_def run_syms_append)
    then show ?thesis using run_syms_not_nl [OF nl st] Inl by blast
  next
    case (Inr p1)
    from l show ?thesis
    proof
      assume "l = cs"
      then have "parse_line lim p l = run_syms lim p1 [EOL]"
        using Inr by (simp add: parse_line_def run_syms_append)
      then show ?thesis using pe tail by metis
    next
      assume "l = cs @ [LF]"
      then have "parse_line lim p l = run_syms lim p1 [Ch LF, EOL]"
        using Inr by (simp only: parse_line_def run_syms_append map_append append_assoc list.map
          append_Cons append_Nil sbind_Inr)
      then show ?thesis using pe run_syms_LF_EOL by metis
    qed
  qed
qed

lemma parse_line_state:
  assumes "parse_line lim p l = Inr p'"
  shows "pst p' \<noteq> EAT_CRNL"
proof -
  have "sbind (run_syms lim p (map Ch l)) (\<lambda>p1. process lim p1 EOL) = Inr p'"
    using assms by (simp add: parse_line_def run_syms_append)
  then obtain p1 where p1: "process lim p1 EOL = Inr p'" by (auto simp: sbind_def split: sum.splits)
  obtain p'' where "process lim p1 EOL = Inr p''" and "pst p'' \<noteq> EAT_CRNL"
    using process_EOL by blast
  with p1 show ?thesis by simp
qed

section \<open>The reader\<close>

lemma read_record_exc:
  "\<forall>l\<in>set ls. good_line l \<Longrightarrow> pst p \<noteq> EAT_CRNL \<Longrightarrow> read_record lim p ls = Inl e \<Longrightarrow>
   e = field_limit_exc"
proof (induction lim p ls rule: read_record.induct)
  case (2 lim p l ls)
  show ?case
  proof (cases "parse_line lim p l")
    case (Inl e')
    then show ?thesis using 2 parse_line_exc [of l p lim e'] by simp
  next
    case (Inr p')
    then show ?thesis using 2 parse_line_state [OF Inr] by (simp split: if_splits)
  qed
qed (simp split: if_splits)

lemma read_record_suffix:
  "read_record lim p ls = Inr (Some (r, ls')) \<Longrightarrow> set ls' \<subseteq> set ls"
  by (induction lim p ls rule: read_record.induct) (auto simp: sbind_def split: sum.splits if_splits)

lemma csv_rows_exc:
  "\<forall>l\<in>set ls. good_line l \<Longrightarrow> gen_exc (csv_rows lim ls) \<in> {None, Some field_limit_exc}"
proof (induction lim ls rule: csv_rows.induct)
  case (1 lim ls)
  have st: "pst reset_parser \<noteq> EAT_CRNL" by (simp add: reset_parser_def)
  show ?case
  proof (cases "csv_next lim ls")
    case (Inl e)
    then have "e = field_limit_exc"
      using read_record_exc [OF "1.prems" st] by (simp add: csv_next_def)
    then show ?thesis using Inl by (simp add: csv_rows.simps [of lim ls])
  next
    case (Inr x)
    show ?thesis
    proof (cases x)
      case None
      then show ?thesis using Inr by (simp add: csv_rows.simps [of lim ls])
    next
      case (Some y)
      obtain r ls' where y: "y = (r, ls')" by (cases y)
      then have "set ls' \<subseteq> set ls"
        using Inr Some read_record_suffix by (fastforce simp: csv_next_def)
      then show ?thesis using "1.IH" [OF Inr Some y [symmetric]] "1.prems" Inr Some y
        by (auto simp: csv_rows.simps [of lim ls])
    qed
  qed
qed

lemma dict_rows_exc [simp]: "gen_exc (dict_rows h g) = gen_exc g"
  by (induction h g rule: dict_rows.induct) auto

lemma dict_reader_exc: "gen_exc (dict_reader lim ls) = gen_exc (csv_rows lim ls)"
  by (simp add: dict_reader_def csv_rows.simps [of lim ls] split: sum.splits option.splits)

section \<open>The extract stage\<close>

text \<open>C20: on a text file, the only exception the extract stage can raise is the csv
  field size limit; in particular the reader's error "new-line character seen in
  unquoted field" cannot occur on a file opened in text mode.\<close>

theorem extract_users_exc:
  assumes "fs p = TextFile s"
  shows "gen_exc (extract_users fs p) \<in> {None, Some field_limit_exc}"
  using assms csv_rows_exc [OF text_lines_good]
  by (simp add: extract_users_def dict_reader_exc)

theorem extract_users_exc_witness:
  "gen_exc (extract_users (\<lambda>q. TextFile ''id'') ''users.csv'') \<in> {None, Some field_limit_exc}"
  by (rule extract_users_exc) simp

end
