(* ===== verification/PyText.thy ===== *)
theory PyText
  imports Prelude
begin

text \<open>
  The Python \<^verbatim>\<open>str\<close> operations the pipeline calls, on the code points the model's
  \<open>char\<close> can hold (U+0000 to U+00FF, Latin-1), each with the result CPython 3.11
  gives there:
  \<^item> \<^verbatim>\<open>str.isalnum\<close> on one character (\<open>py_isalnum\<close>), used by
    \<^verbatim>\<open>transform_users\<close> to filter the description;
  \<^item> \<^verbatim>\<open>str.lower\<close> (\<open>py_lower\<close>), used on the email;
  \<^item> \<^verbatim>\<open>int(s)\<close> on a string (\<open>py_int\<close>), used on the id: whitespace stripping, an
    optional sign, digits with single underscores between them, and the 4300-digit
    limit of \<^verbatim>\<open>sys.get_int_max_str_digits()\<close>;
  \<^item> \<^verbatim>\<open>str(i)\<close> of an integer (\<open>py_str_int\<close>), which \<^verbatim>\<open>csv.DictWriter\<close> applies
    to the generated id, with the same digit limit.
\<close>

section \<open>Character classes\<close>

abbreviation code :: "char \<Rightarrow> nat" where
  "code c \<equiv> of_char c"

definition is_digit :: "char \<Rightarrow> bool" where
  "is_digit c \<longleftrightarrow> 48 \<le> code c \<and> code c \<le> 57"

text \<open>
  \<^verbatim>\<open>str.isalnum\<close> on Latin-1: ASCII letters and digits, the feminine and masculine
  ordinals (U+00AA, U+00BA), micro sign (U+00B5), the superscript digits and vulgar
  fractions (numeric characters, U+00B2, U+00B3, U+00B9, U+00BC to U+00BE) and the
  letters U+00C0 to U+00FF except the multiplication and division signs.
\<close>

definition py_isalnum :: "char \<Rightarrow> bool" where
  "py_isalnum c \<longleftrightarrow>
     (let n = code c in
        (48 \<le> n \<and> n \<le> 57) \<or> (65 \<le> n \<and> n \<le> 90) \<or> (97 \<le> n \<and> n \<le> 122) \<or>
        n \<in> {170, 178, 179, 181, 185, 186, 188, 189, 190} \<or>
        (192 \<le> n \<and> n \<noteq> 215 \<and> n \<noteq> 247))"

text \<open>The characters \<^verbatim>\<open>str.lower\<close> changes: \<^verbatim>\<open>A-Z\<close> and U+00C0 to U+00DE except U+00D7.\<close>

definition is_upper :: "char \<Rightarrow> bool" where
  "is_upper c \<longleftrightarrow>
     (let n = code c in (65 \<le> n \<and> n \<le> 90) \<or> (192 \<le> n \<and> n \<le> 222 \<and> n \<noteq> 215))"

definition py_lower_char :: "char \<Rightarrow> char" where
  "py_lower_char c = (if is_upper c then char_of (code c + 32) else c)"

definition py_lower :: "string \<Rightarrow> string" where
  "py_lower s = map py_lower_char s"

text \<open>
  The whitespace \<^verbatim>\<open>int()\<close> strips: ASCII \<^verbatim>\<open>\t \n \v \f \r\<close> and space, and the
  non-ASCII spaces NEL (U+0085) and NBSP (U+00A0). The separators U+001C to U+001F,
  which \<^verbatim>\<open>str.isspace\<close> accepts, are not stripped by \<^verbatim>\<open>int()\<close>.
\<close>

definition int_space :: "char \<Rightarrow> bool" where
  "int_space c \<longleftrightarrow> code c \<in> {9, 10, 11, 12, 13, 32, 133, 160}"

section \<open>Decimal digits\<close>

definition digit_val :: "char \<Rightarrow> nat" where
  "digit_val c = code c - 48"

definition digit_char :: "nat \<Rightarrow> char" where
  "digit_char d = char_of (48 + d)"

definition digits_val :: "string \<Rightarrow> nat" where
  "digits_val ds = foldl (\<lambda>a c. 10 * a + digit_val c) 0 ds"

text \<open>The decimal rendering of a natural number, most significant digit first.\<close>

fun nat_digits :: "nat \<Rightarrow> string" where
  "nat_digits n = (if n < 10 then [digit_char n] else nat_digits (n div 10) @ [digit_char (n mod 10)])"

declare nat_digits.simps [simp del]

text \<open>\<^verbatim>\<open>sys.get_int_max_str_digits()\<close>, 4300 by default since Python 3.11.\<close>

definition int_max_str_digits :: nat where
  "int_max_str_digits = 4300"

section \<open>\<^verbatim>\<open>int(s)\<close>\<close>

text \<open>
  The digit scan of CPython's \<^verbatim>\<open>long_from_string\<close>: it consumes digits and
  underscores, where an underscore must follow a digit and be followed by one.
  \<open>prev\<close> is the character consumed last. It returns the digits (underscores
  dropped) and the rest of the input, or \<open>None\<close> for a misplaced underscore.
\<close>

fun scan_num :: "char \<Rightarrow> string \<Rightarrow> (string \<times> string) option" where
  "scan_num prev [] = (if prev = CHR ''_'' then None else Some ([], []))"
| "scan_num prev (c # cs) =
     (if is_digit c then map_option (\<lambda>(ds, r). (c # ds, r)) (scan_num c cs)
      else if c = CHR ''_'' then (if prev = CHR ''_'' then None else scan_num c cs)
      else if prev = CHR ''_'' then None
      else Some ([], c # cs))"

definition invalid_int :: "string \<Rightarrow> exc" where
  "invalid_int s = ValueError (''invalid literal for int() with base 10: '' @ s)"

definition int_limit_exc :: exc where
  "int_limit_exc = ValueError ''Exceeds the limit (4300 digits) for integer string conversion''"

text \<open>
  \<^verbatim>\<open>int(s)\<close> for a string \<open>s\<close>: leading whitespace, an optional sign, a digit,
  the digit scan, the digit limit (checked before the trailing characters), trailing
  whitespace, end of input.
\<close>

definition py_int_body :: "string \<Rightarrow> bool \<Rightarrow> string \<Rightarrow> exc + int" where
  "py_int_body s neg b =
     (case b of
        [] \<Rightarrow> Inl (invalid_int s)
      | d # r \<Rightarrow>
          if \<not> is_digit d then Inl (invalid_int s)
          else (case scan_num d r of
                  None \<Rightarrow> Inl (invalid_int s)
                | Some (ds, rest) \<Rightarrow>
                    if int_max_str_digits < length (d # ds) then Inl int_limit_exc
                    else if dropWhile int_space rest \<noteq> [] then Inl (invalid_int s)
                    else Inr ((if neg then -1 else 1) * int (digits_val (d # ds)))))"

definition py_int :: "string \<Rightarrow> exc + int" where
  "py_int s =
     (case dropWhile int_space s of
        [] \<Rightarrow> Inl (invalid_int s)
      | c # r \<Rightarrow>
          if c = CHR ''-'' then py_int_body s True r
          else if c = CHR ''+'' then py_int_body s False r
          else py_int_body s False (c # r))"

section \<open>\<^verbatim>\<open>str(i)\<close>\<close>

definition py_str_int :: "int \<Rightarrow> exc + string" where
  "py_str_int i =
     (let ds = nat_digits (nat \<bar>i\<bar>)
      in if int_max_str_digits < length ds then Inl int_limit_exc
         else Inr ((if i < 0 then ''-'' else []) @ ds))"

section \<open>Lemmas\<close>

subsection \<open>Decimal rendering\<close>

lemma code_digit_char [simp]: "d < 10 \<Longrightarrow> code (digit_char d) = 48 + d"
  by (simp add: digit_char_def)

lemma is_digit_digit_char [simp]: "d < 10 \<Longrightarrow> is_digit (digit_char d)"
  by (simp add: is_digit_def)

lemma digit_val_digit_char [simp]: "d < 10 \<Longrightarrow> digit_val (digit_char d) = d"
  by (simp add: digit_val_def)

lemma nat_digits_not_Nil [simp]: "nat_digits n \<noteq> []"
  by (subst nat_digits.simps) simp

lemma nat_digits_digits: "list_all is_digit (nat_digits n)"
proof (induction n rule: nat_digits.induct)
  case (1 n)
  then show ?case by (subst nat_digits.simps) simp
qed

lemma digits_val_snoc [simp]: "digits_val (ds @ [c]) = 10 * digits_val ds + digit_val c"
  by (simp add: digits_val_def)

lemma digits_val_nat_digits [simp]: "digits_val (nat_digits n) = n"
proof (induction n rule: nat_digits.induct)
  case (1 n)
  show ?case
  proof (cases "n < 10")
    case True
    then show ?thesis by (subst nat_digits.simps) (simp add: digits_val_def)
  next
    case False
    with "1.IH" show ?thesis by (subst nat_digits.simps) simp
  qed
qed

lemma length_nat_digits_le: "0 < k \<Longrightarrow> n < 10 ^ k \<Longrightarrow> length (nat_digits n) \<le> k"
proof (induction n arbitrary: k rule: nat_digits.induct)
  case (1 n)
  show ?case
  proof (cases "n < 10")
    case True
    with "1.prems" show ?thesis by (subst nat_digits.simps) simp
  next
    case False
    then obtain k' where k: "k = Suc k'" using "1.prems" by (cases k) auto
    from False "1.prems" k have "0 < k'" by (cases k') auto
    moreover from "1.prems" k have "n div 10 < 10 ^ k'" by simp
    ultimately have "length (nat_digits (n div 10)) \<le> k'" using "1.IH" False by blast
    with False k show ?thesis by (subst nat_digits.simps) simp
  qed
qed

lemma is_digit_not_underscore: "is_digit c \<Longrightarrow> c \<noteq> CHR ''_''"
  by (auto simp: is_digit_def)

lemma scan_num_digits:
  "list_all is_digit ds \<Longrightarrow> is_digit prev \<Longrightarrow> scan_num prev ds = Some (ds, [])"
  by (induction ds arbitrary: prev) (auto dest: is_digit_not_underscore)

lemma is_digit_not_space: "is_digit c \<Longrightarrow> \<not> int_space c"
  by (auto simp: is_digit_def int_space_def)

lemma py_int_body_digits:
  assumes "list_all is_digit (d # ds)" and "length (d # ds) \<le> int_max_str_digits"
  shows "py_int_body s neg (d # ds) = Inr ((if neg then -1 else 1) * int (digits_val (d # ds)))"
  using assms by (simp add: py_int_body_def scan_num_digits not_less)

lemma py_int_str_int: "py_str_int i = Inr s \<Longrightarrow> py_int s = Inr i"
proof -
  assume h: "py_str_int i = Inr s"
  let ?ds = "nat_digits (nat \<bar>i\<bar>)"
  from h have len: "length ?ds \<le> int_max_str_digits"
    and s: "s = (if i < 0 then ''-'' else []) @ ?ds"
    by (auto simp: py_str_int_def Let_def split: if_splits)
  obtain d ds where dds: "?ds = d # ds" by (cases ?ds) auto
  have dig: "list_all is_digit (d # ds)" using nat_digits_digits dds by metis
  have body: "py_int_body s neg (d # ds) = Inr ((if neg then -1 else 1) * int (nat \<bar>i\<bar>))" for neg
    using py_int_body_digits [OF dig] len dds digits_val_nat_digits by metis
  show ?thesis
  proof (cases "i < 0")
    case True
    then show ?thesis using s dds body [of True] by (simp add: py_int_def int_space_def)
  next
    case False
    have "\<not> int_space d" "d \<noteq> CHR ''-''" "d \<noteq> CHR ''+''"
      using dig by (auto simp: is_digit_def int_space_def)
    then show ?thesis using False s dds body [of False] by (simp add: py_int_def)
  qed
qed

lemma py_str_int_nonneg:
  assumes "0 \<le> i" and "i < 10 ^ int_max_str_digits"
  shows "py_str_int i = Inr (nat_digits (nat i))"
proof -
  have lt: "nat i < 10 ^ int_max_str_digits" using assms by (simp add: nat_less_iff)
  have pos: "0 < int_max_str_digits" by (simp add: int_max_str_digits_def)
  have "length (nat_digits (nat i)) \<le> int_max_str_digits"
    using length_nat_digits_le [OF pos lt] .
  then show ?thesis using assms by (simp add: py_str_int_def Let_def)
qed

lemma is_upper_lower_char: "is_upper c \<Longrightarrow> code (py_lower_char c) = code c + 32"
  by (auto simp: py_lower_char_def is_upper_def Let_def)

lemma py_lower_char_not_upper [simp]: "\<not> is_upper (py_lower_char c)"
proof (cases "is_upper c")
  case True
  then have "code (py_lower_char c) = code c + 32" by (rule is_upper_lower_char)
  with True show ?thesis by (auto simp: is_upper_def Let_def)
next
  case False
  then show ?thesis by (simp add: py_lower_char_def)
qed

lemma py_lower_char_idem [simp]: "py_lower_char (py_lower_char c) = py_lower_char c"
  using py_lower_char_not_upper by (simp add: py_lower_char_def [of "py_lower_char c"])

lemma py_lower_idem: "py_lower (py_lower s) = py_lower s"
  by (simp add: py_lower_def)

lemma py_lower_no_upper: "\<forall>c\<in>set (py_lower s). \<not> is_upper c"
  by (simp add: py_lower_def)

lemmas py_int_eval = py_int_def py_int_body_def is_digit_def int_space_def digits_val_def
  digit_val_def int_max_str_digits_def invalid_int_def

text \<open>The facts that evaluate the text functions on a literal string.\<close>

lemmas py_text_eval = py_lower_def py_lower_char_def is_upper_def char_of_eq_iff py_isalnum_def

end
