(* ===== verification/Generate.thy ===== *)
theory Generate
  imports World Csv PyText
begin

text \<open>
  The record generator and the CSV writer of \<^verbatim>\<open>src/pipeline.py\<close>:
  \<^item> \<^verbatim>\<open>UserData\<close> (lines 12-17) is the record \<open>user_data\<close>; as a Python dict its keys
    are \<open>user_keys\<close>, in this order;
  \<^item> \<^verbatim>\<open>get_user(size)\<close> (lines 20-35) yields the users \<open>0 .. size - 1\<close>. The values
    Faker and \<^verbatim>\<open>random.choice\<close> produce for the \<open>i\<close>-th user are the oracle \<open>fake i\<close>:
    a first name, the email chosen between an upper-cased and a lower-cased fake
    address, a password, and a 20-character password used as description;
  \<^item> \<^verbatim>\<open>generate_csv\<close> (lines 38-47) opens the file for writing (which fails on a
    directory or an unreachable path), writes the header through
    \<^verbatim>\<open>DictWriter.writeheader\<close> and one row per user through
    \<^verbatim>\<open>DictWriter.writerow\<close>, which rejects a dict with a key outside the field
    names, fills a missing key with \<^verbatim>\<open>""\<close> and converts the integer id with
    \<^verbatim>\<open>str\<close>. An exception ends the writing; the rows written so far stay in the file.
\<close>

record fake_user =
  fake_first_name :: string
  fake_email :: string
  fake_password :: string
  fake_description :: string

record user_data =
  u_id :: int
  u_name :: string
  u_email :: string
  u_password :: string
  u_description :: string

definition user_keys :: "string list" where
  "user_keys = [''id'', ''name'', ''email'', ''password'', ''description'']"

definition get_user :: "nat \<Rightarrow> (nat \<Rightarrow> fake_user) \<Rightarrow> user_data list" where
  "get_user n fake =
     map (\<lambda>i. \<lparr>u_id = int i, u_name = fake_first_name (fake i), u_email = fake_email (fake i),
              u_password = fake_password (fake i), u_description = fake_description (fake i)\<rparr>)
       [0..<n]"

text \<open>\<^verbatim>\<open>str(rowdict.get(key, ""))\<close> for a field name.\<close>

definition user_get :: "user_data \<Rightarrow> string \<Rightarrow> exc + string" where
  "user_get u k =
     (if k = ''id'' then py_str_int (u_id u)
      else if k = ''name'' then Inr (u_name u)
      else if k = ''email'' then Inr (u_email u)
      else if k = ''password'' then Inr (u_password u)
      else if k = ''description'' then Inr (u_description u)
      else Inr [])"

definition dict_writer_row :: "string list \<Rightarrow> user_data \<Rightarrow> exc + string list" where
  "dict_writer_row fns u =
     (if \<exists>k\<in>set user_keys. k \<notin> set fns
      then Inl (ValueError ''dict contains fields not in fieldnames'')
      else seq_exc (map (user_get u) fns))"

fun write_users :: "string list \<Rightarrow> user_data list \<Rightarrow> string \<times> exc option" where
  "write_users fns [] = ([], None)"
| "write_users fns (u # us) =
     (case dict_writer_row fns u of
        Inl e \<Rightarrow> ([], Some e)
      | Inr r \<Rightarrow> (let (t, e) = write_users fns us in (csv_write_row r @ t, e)))"

definition generate_csv ::
  "path \<Rightarrow> string list \<Rightarrow> nat \<Rightarrow> (nat \<Rightarrow> fake_user) \<Rightarrow> fs \<Rightarrow> exc option \<times> fs \<times> event list" where
  "generate_csv p fns n fake fs =
     (case fs p of
        Directory \<Rightarrow> (Some (IsADirectoryError p), fs, [])
      | Unreachable \<Rightarrow> (Some (FileNotFoundError p), fs, [])
      | _ \<Rightarrow>
          (let (t, e) = write_users fns (get_user n fake)
           in (e, fs(p := TextFile (csv_write_row fns @ t)),
               if e = None then [Csv_written n p] else [])))"

section \<open>Lemmas\<close>

text \<open>The fields \<^verbatim>\<open>DictWriter\<close> writes for a user with a non-negative id under the
  field names \<open>user_keys\<close>.\<close>

definition user_fields :: "user_data \<Rightarrow> string list" where
  "user_fields u = [nat_digits (nat (u_id u)), u_name u, u_email u, u_password u, u_description u]"

lemma dict_writer_row_user:
  "0 \<le> u_id u \<Longrightarrow> u_id u < 10 ^ int_max_str_digits \<Longrightarrow>
   dict_writer_row user_keys u = Inr (user_fields u)"
  by (simp add: dict_writer_row_def user_keys_def user_get_def py_str_int_nonneg user_fields_def)

lemma write_users_ok:
  "\<forall>u\<in>set us. dict_writer_row fns u = Inr (row u) \<Longrightarrow>
   write_users fns us = (concat (map (\<lambda>u. csv_write_row (row u)) us), None)"
  by (induction us) auto

lemma get_user_nth: "k < n \<Longrightarrow> get_user n fake ! k =
   \<lparr>u_id = int k, u_name = fake_first_name (fake k), u_email = fake_email (fake k),
    u_password = fake_password (fake k), u_description = fake_description (fake k)\<rparr>"
  by (simp add: get_user_def)

lemma get_user_ids: "u \<in> set (get_user n fake) \<Longrightarrow> \<exists>k<n. u_id u = int k"
  by (auto simp: get_user_def)

lemma generate_csv_ok:
  assumes "fs p \<noteq> Directory" and "fs p \<noteq> Unreachable" and "int n \<le> 10 ^ int_max_str_digits"
  shows "generate_csv p user_keys n fake fs =
     (None, fs(p := TextFile (concat (map csv_write_row (user_keys # map user_fields (get_user n fake))))),
      [Csv_written n p])"
proof -
  have "\<forall>u\<in>set (get_user n fake). dict_writer_row user_keys u = Inr (user_fields u)"
  proof
    fix u assume "u \<in> set (get_user n fake)"
    then obtain k where "k < n" "u_id u = int k" using get_user_ids by blast
    then show "dict_writer_row user_keys u = Inr (user_fields u)"
      using assms(3) by (intro dict_writer_row_user) simp_all
  qed
  then have "write_users user_keys (get_user n fake) =
      (concat (map (\<lambda>u. csv_write_row (user_fields u)) (get_user n fake)), None)"
    by (rule write_users_ok)
  then show ?thesis using assms(1,2)
    by (cases "fs p") (simp_all add: generate_csv_def comp_def)
qed

end
