(* ===== verification/Transform.thy ===== *)
theory Transform
  imports Gen PyText
begin

text \<open>
  \<^verbatim>\<open>transform_users\<close> (\<^verbatim>\<open>src/pipeline.py\<close>, lines 93-105). For each row pulled from the
  extract generator it prints \<^verbatim>\<open>T: transform row #i\<close> and then, in this order,
  deletes \<^verbatim>\<open>password\<close>, replaces \<^verbatim>\<open>id\<close> by \<^verbatim>\<open>int(row["id"])\<close>, replaces
  \<^verbatim>\<open>email\<close> by its \<^verbatim>\<open>lower()\<close>, replaces \<^verbatim>\<open>description\<close> by its alphanumeric
  characters, and appends \<^verbatim>\<open>processed_at\<close>, the UTC clock read at that moment. Each
  statement may raise; the first exception ends the generator (\<open>Raise\<close>), and the
  exceptions of the extract generator pass through unchanged.

  \<open>transform_row t row\<close> is the loop body for one row with the clock reading \<open>t\<close>;
  \<open>transform_loop clk i g\<close> is the loop from the \<open>i\<close>-th row on, where \<open>clk i\<close> is what
  \<^verbatim>\<open>datetime.now\<close> returns for the \<open>i\<close>-th row; \<open>transform_users\<close> adds the line
  printed when the generator is first resumed.
\<close>

section \<open>The statements of the loop body\<close>

text \<open>\<^verbatim>\<open>int(v)\<close> on the value stored under \<^verbatim>\<open>id\<close>.\<close>

definition int_of_value :: "pyval \<Rightarrow> exc + int" where
  "int_of_value v =
     (case v of
        VStr s \<Rightarrow> py_int s
      | VInt i \<Rightarrow> Inr i
      | VNone \<Rightarrow> Inl (TypeError ''int() argument must be a string, a bytes-like object or a real number, not NoneType'')
      | VList _ \<Rightarrow> Inl (TypeError ''int() argument must be a string, a bytes-like object or a real number, not list'')
      | VTime _ \<Rightarrow> Inl (TypeError ''int() argument must be a string, a bytes-like object or a real number, not datetime.datetime''))"

text \<open>\<^verbatim>\<open>v.lower()\<close>: only a string has the method.\<close>

definition lower_value :: "pyval \<Rightarrow> exc + pyval" where
  "lower_value v =
     (case v of
        VStr s \<Rightarrow> Inr (VStr (py_lower s))
      | _ \<Rightarrow> Inl (AttributeError ''object has no attribute lower''))"

text \<open>
  \<^verbatim>\<open>"".join(char for char in v if char.isalnum())\<close>: iterating a string gives its
  characters; iterating the list of surplus fields gives strings, and
  \<^verbatim>\<open>str.isalnum\<close> of a string holds when it is non-empty and all its characters are
  alphanumeric; \<^verbatim>\<open>None\<close>, an integer and a datetime are not iterable.
\<close>

definition alnum_join :: "pyval \<Rightarrow> exc + pyval" where
  "alnum_join v =
     (case v of
        VStr s \<Rightarrow> Inr (VStr (filter py_isalnum s))
      | VList xs \<Rightarrow> Inr (VStr (concat (filter (\<lambda>x. x \<noteq> [] \<and> list_all py_isalnum x) xs)))
      | _ \<Rightarrow> Inl (TypeError ''object is not iterable''))"

definition transform_row :: "timestamp \<Rightarrow> pyrow \<Rightarrow> exc + pyrow" where
  "transform_row t row0 =
     sbind (delitem row0 (KStr ''password'')) (\<lambda>row1.
     sbind (sbind (getitem row1 (KStr ''id'')) int_of_value) (\<lambda>i.
     let row2 = dict_set row1 (KStr ''id'') (VInt i) in
     sbind (sbind (getitem row2 (KStr ''email'')) lower_value) (\<lambda>e.
     let row3 = dict_set row2 (KStr ''email'') e in
     sbind (sbind (getitem row3 (KStr ''description'')) alnum_join) (\<lambda>d.
     let row4 = dict_set row3 (KStr ''description'') d in
     Inr (dict_set row4 (KStr ''processed_at'') (VTime t))))))"

section \<open>The generator\<close>

fun transform_loop :: "(nat \<Rightarrow> timestamp) \<Rightarrow> nat \<Rightarrow> pyrow gen \<Rightarrow> pyrow gen" where
  "transform_loop clk i (Yield evs r g) =
     (case transform_row (clk i) r of
        Inl e \<Rightarrow> Raise (evs @ [T_row i]) e
      | Inr r' \<Rightarrow> Yield (evs @ [T_row i]) r' (transform_loop clk (Suc i) g))"
| "transform_loop clk i (Stop evs) = Stop (evs @ [T_finished])"
| "transform_loop clk i (Raise evs e) = Raise evs e"

definition transform_users :: "(nat \<Rightarrow> timestamp) \<Rightarrow> pyrow gen \<Rightarrow> pyrow gen" where
  "transform_users clk g = gen_prefix [T_start] (transform_loop clk 0 g)"

section \<open>Properties of one row\<close>

text \<open>The row \<^verbatim>\<open>csv.DictReader\<close> builds from a data line under the header
  \<^verbatim>\<open>id,name,email,password,description\<close>.\<close>

abbreviation raw_user_row :: "string \<Rightarrow> string \<Rightarrow> string \<Rightarrow> string \<Rightarrow> string \<Rightarrow> pyrow" where
  "raw_user_row a n e p d \<equiv>
     [(KStr ''id'', VStr a), (KStr ''name'', VStr n), (KStr ''email'', VStr e),
      (KStr ''password'', VStr p), (KStr ''description'', VStr d)]"

lemma transform_row_raw_user:
  "transform_row t (raw_user_row a n e p d) =
     sbind (py_int a) (\<lambda>i. Inr
       [(KStr ''id'', VInt i), (KStr ''name'', VStr n), (KStr ''email'', VStr (py_lower e)),
        (KStr ''description'', VStr (filter py_isalnum d)), (KStr ''processed_at'', VTime t)])"
  by (cases "py_int a")
    (simp_all add: transform_row_def delitem_def getitem_def int_of_value_def lower_value_def alnum_join_def)

text \<open>C5: on the row DictReader builds from a data line under the header id,name,email,password,description, transform_row drops the password, parses the id with int(), lowercases the email, keeps the alphanumeric characters of the description and appends the timestamp, in the column order id, name, email, description, processed_at; a non-integer id is raised as the exception of int().\<close>

theorem transform_row_user:
  "transform_row t (raw_user_row a n e p d) =
     sbind (py_int a) (\<lambda>i. Inr
       [(KStr ''id'', VInt i), (KStr ''name'', VStr n), (KStr ''email'', VStr (py_lower e)),
        (KStr ''description'', VStr (filter py_isalnum d)), (KStr ''processed_at'', VTime t)])"
  by (rule transform_row_raw_user)

lemma transform_row_Inr:
  "transform_row t r = Inr r' \<longleftrightarrow>
     (\<exists>r1 i e d. dict_del r (KStr ''password'') = Some r1 \<and>
        sbind (getitem r1 (KStr ''id'')) int_of_value = Inr i \<and>
        sbind (getitem (dict_set r1 (KStr ''id'') (VInt i)) (KStr ''email'')) lower_value = Inr e \<and>
        sbind (getitem (dict_set (dict_set r1 (KStr ''id'') (VInt i)) (KStr ''email'') e) (KStr ''description'')) alnum_join = Inr d \<and>
        r' = dict_set (dict_set (dict_set (dict_set r1 (KStr ''id'') (VInt i)) (KStr ''email'') e) (KStr ''description'') d)
               (KStr ''processed_at'') (VTime t))"
  by (simp add: transform_row_def delitem_Inr_iff Let_def) blast

lemma transform_row_cases:
  assumes "dict_wf r" and "transform_row t r = Inr r'"
  obtains r1 v i e d where "dict_del r (KStr ''password'') = Some r1" and "dict_wf r1"
    and "dict_lookup r (KStr ''id'') = Some v" and "int_of_value v = Inr i"
    and "sbind (getitem r (KStr ''email'')) lower_value = Inr e"
    and "sbind (getitem r (KStr ''description'')) alnum_join = Inr d"
    and "r' = dict_set (dict_set (dict_set (dict_set r1 (KStr ''id'') (VInt i)) (KStr ''email'') e)
                (KStr ''description'') d) (KStr ''processed_at'') (VTime t)"
proof -
  from assms(2) obtain r1 i e d where
    del: "dict_del r (KStr ''password'') = Some r1" and
    idv: "sbind (getitem r1 (KStr ''id'')) int_of_value = Inr i" and
    em: "sbind (getitem (dict_set r1 (KStr ''id'') (VInt i)) (KStr ''email'')) lower_value = Inr e" and
    de: "sbind (getitem (dict_set (dict_set r1 (KStr ''id'') (VInt i)) (KStr ''email'') e) (KStr ''description'')) alnum_join = Inr d" and
    r': "r' = dict_set (dict_set (dict_set (dict_set r1 (KStr ''id'') (VInt i)) (KStr ''email'') e) (KStr ''description'') d)
               (KStr ''processed_at'') (VTime t)"
    unfolding transform_row_Inr by blast
  have wf1: "dict_wf r1" using assms(1) del by (rule dict_del_wf)
  have lk: "dict_lookup r1 k = (if k = KStr ''password'' then None else dict_lookup r k)" for k
    using assms(1) del by (rule dict_del_lookup)
  from idv obtain v where "dict_lookup r (KStr ''id'') = Some v" "int_of_value v = Inr i"
    by (auto simp: getitem_Inr_iff lk)
  moreover have "sbind (getitem r (KStr ''email'')) lower_value = Inr e"
    using em by (simp add: getitem_def lk)
  moreover have "sbind (getitem r (KStr ''description'')) alnum_join = Inr d"
    using de by (simp add: getitem_def lk)
  ultimately show ?thesis using that del wf1 r' by blast
qed

lemma transform_row_wf: "dict_wf r \<Longrightarrow> transform_row t r = Inr r' \<Longrightarrow> dict_wf r'"
  by (erule transform_row_cases) (auto intro!: dict_set_wf)

text \<open>C8: a transformed row never contains the key password.\<close>

theorem transform_row_drops_password:
  assumes "dict_wf r" and "transform_row t r = Inr r'"
  shows "KStr ''password'' \<notin> set (dict_keys r')"
proof (rule transform_row_cases [OF assms])
  fix r1 v i e d
  assume del: "dict_del r (KStr ''password'') = Some r1"
    and r': "r' = dict_set (dict_set (dict_set (dict_set r1 (KStr ''id'') (VInt i)) (KStr ''email'') e)
                (KStr ''description'') d) (KStr ''processed_at'') (VTime t)"
  have "KStr ''password'' \<notin> set (dict_keys r1)" using assms(1) del by (rule dict_del_removes)
  with r' show ?thesis by simp
qed

text \<open>C9: the email of a transformed row is the lowercase of the email read.\<close>

theorem transform_row_lowercases_email:
  assumes "dict_wf r" and "transform_row t r = Inr r'"
  shows "\<exists>s. dict_lookup r (KStr ''email'') = Some (VStr s) \<and>
             dict_lookup r' (KStr ''email'') = Some (VStr (py_lower s))"
proof (rule transform_row_cases [OF assms])
  fix r1 v i e d
  assume em: "sbind (getitem r (KStr ''email'')) lower_value = Inr e"
    and r': "r' = dict_set (dict_set (dict_set (dict_set r1 (KStr ''id'') (VInt i)) (KStr ''email'') e)
                (KStr ''description'') d) (KStr ''processed_at'') (VTime t)"
  from em obtain x where x: "dict_lookup r (KStr ''email'') = Some x" and lx: "lower_value x = Inr e"
    by (auto simp: getitem_Inr_iff)
  from lx obtain s where "x = VStr s" "e = VStr (py_lower s)"
    by (cases x) (auto simp: lower_value_def)
  with x r' show ?thesis by simp
qed

lemma alnum_join_Inr:
  "alnum_join v = Inr w \<Longrightarrow> \<exists>d. w = VStr d \<and> (\<forall>c\<in>set d. py_isalnum c) \<and>
     (\<forall>s. v = VStr s \<longrightarrow> d = filter py_isalnum s)"
  by (cases v) (auto simp: alnum_join_def list_all_iff)

text \<open>C10: the description of a transformed row consists of alphanumeric characters only, and is the alphanumeric characters of the description read, in order.\<close>

theorem transform_row_description_alnum:
  assumes "dict_wf r" and "transform_row t r = Inr r'"
  shows "\<exists>d. dict_lookup r' (KStr ''description'') = Some (VStr d) \<and> (\<forall>c\<in>set d. py_isalnum c) \<and>
           (\<forall>s. dict_lookup r (KStr ''description'') = Some (VStr s) \<longrightarrow> d = filter py_isalnum s)"
proof (rule transform_row_cases [OF assms])
  fix r1 v i e d
  assume de: "sbind (getitem r (KStr ''description'')) alnum_join = Inr d"
    and r': "r' = dict_set (dict_set (dict_set (dict_set r1 (KStr ''id'') (VInt i)) (KStr ''email'') e)
                (KStr ''description'') d) (KStr ''processed_at'') (VTime t)"
  from de obtain x where x: "dict_lookup r (KStr ''description'') = Some x" and jx: "alnum_join x = Inr d"
    by (auto simp: getitem_Inr_iff)
  from alnum_join_Inr [OF jx] x r' show ?thesis by auto
qed

text \<open>C17: the id of a transformed row is int() of the id read.\<close>

theorem transform_row_id:
  assumes "dict_wf r" and "transform_row t r = Inr r'"
  shows "\<exists>v i. dict_lookup r (KStr ''id'') = Some v \<and> int_of_value v = Inr i \<and>
           dict_lookup r' (KStr ''id'') = Some (VInt i)"
proof (rule transform_row_cases [OF assms])
  fix r1 v i e d
  assume "dict_lookup r (KStr ''id'') = Some v" and "int_of_value v = Inr i"
    and "r' = dict_set (dict_set (dict_set (dict_set r1 (KStr ''id'') (VInt i)) (KStr ''email'') e)
                (KStr ''description'') d) (KStr ''processed_at'') (VTime t)"
  then show ?thesis by auto
qed

text \<open>C18: transform_row keeps the key order of the row read, without password, and appends processed_at: the order tuple(row.values()) binds positionally.\<close>

theorem transform_row_keys:
  assumes "dict_wf r" and "transform_row t r = Inr r'"
  shows "dict_keys r' = filter (\<lambda>k. k \<noteq> KStr ''password'') (dict_keys r) @
           (if KStr ''processed_at'' \<in> set (dict_keys r) then [] else [KStr ''processed_at''])"
proof (rule transform_row_cases [OF assms])
  fix r1 v i e d
  assume del: "dict_del r (KStr ''password'') = Some r1"
    and idv: "dict_lookup r (KStr ''id'') = Some v"
    and em: "sbind (getitem r (KStr ''email'')) lower_value = Inr e"
    and de: "sbind (getitem r (KStr ''description'')) alnum_join = Inr d"
    and r': "r' = dict_set (dict_set (dict_set (dict_set r1 (KStr ''id'') (VInt i)) (KStr ''email'') e)
                (KStr ''description'') d) (KStr ''processed_at'') (VTime t)"
  have keys1: "dict_keys r1 = filter (\<lambda>k. k \<noteq> KStr ''password'') (dict_keys r)"
    using assms(1) del by (rule dict_del_keys)
  have in_keys: "dict_lookup r k = Some x \<Longrightarrow> k \<in> set (dict_keys r)" for k x
    using dict_lookup_None_iff [of r k] by auto
  from em obtain x where "dict_lookup r (KStr ''email'') = Some x" by (auto simp: getitem_Inr_iff)
  then have "KStr ''email'' \<in> set (dict_keys r1)" using keys1 in_keys by auto
  moreover from de obtain y where "dict_lookup r (KStr ''description'') = Some y" by (auto simp: getitem_Inr_iff)
  then have "KStr ''description'' \<in> set (dict_keys r1)" using keys1 in_keys by auto
  moreover from idv have "KStr ''id'' \<in> set (dict_keys r1)" using keys1 in_keys by auto
  ultimately show ?thesis using keys1 r' by (simp add: dict_keys_set)
qed

text \<open>C11: when the id is a string int() rejects, transform_row raises that ValueError and produces no row (no default is substituted).\<close>

theorem transform_row_id_error:
  assumes "dict_wf r" and "KStr ''password'' \<in> set (dict_keys r)"
    and "dict_lookup r (KStr ''id'') = Some (VStr s)" and "py_int s = Inl e"
  shows "transform_row t r = Inl e"
proof -
  obtain r1 where del: "dict_del r (KStr ''password'') = Some r1"
    using assms(2) dict_del_None_iff by fastforce
  have "dict_lookup r1 (KStr ''id'') = Some (VStr s)"
    using dict_del_lookup [OF assms(1) del] assms(3) by simp
  with del assms(4) show ?thesis
    by (simp add: transform_row_def delitem_def getitem_def int_of_value_def)
qed

section \<open>Witnesses\<close>

abbreviation example_raw_row :: pyrow where
  "example_raw_row \<equiv> raw_user_row ''7'' ''Ann'' ''A@X.COM'' ''p'' ''ab-12!''"

abbreviation example_out_row :: pyrow where
  "example_out_row \<equiv>
     [(KStr ''id'', VInt 7), (KStr ''name'', VStr ''Ann''), (KStr ''email'', VStr ''a@x.com''),
      (KStr ''description'', VStr ''ab12''), (KStr ''processed_at'', VTime 5)]"

lemma example_raw_row_wf: "dict_wf example_raw_row"
  by (simp add: dict_wf_def)

lemma example_transform: "transform_row 5 example_raw_row = Inr example_out_row"
  by (simp add: transform_row_raw_user py_int_eval py_lower_def py_lower_char_def is_upper_def
      char_of_eq_iff py_isalnum_def)

theorem transform_row_drops_password_witness:
  "dict_wf example_raw_row \<and> transform_row 5 example_raw_row = Inr example_out_row \<and>
   KStr ''password'' \<notin> set (dict_keys example_out_row)"
  using transform_row_drops_password [OF example_raw_row_wf example_transform]
    example_raw_row_wf example_transform by simp

theorem transform_row_lowercases_email_witness:
  "dict_wf example_raw_row \<and> transform_row 5 example_raw_row = Inr example_out_row \<and>
   dict_lookup example_out_row (KStr ''email'') = Some (VStr (py_lower ''A@X.COM''))"
  using transform_row_lowercases_email [OF example_raw_row_wf example_transform]
    example_raw_row_wf example_transform by auto

theorem transform_row_description_alnum_witness:
  "dict_wf example_raw_row \<and> transform_row 5 example_raw_row = Inr example_out_row \<and>
   dict_lookup example_out_row (KStr ''description'') = Some (VStr (filter py_isalnum ''ab-12!''))"
  using transform_row_description_alnum [OF example_raw_row_wf example_transform]
    example_raw_row_wf example_transform by auto

theorem transform_row_id_witness:
  "dict_wf example_raw_row \<and> transform_row 5 example_raw_row = Inr example_out_row \<and>
   int_of_value (VStr ''7'') = Inr 7"
  using transform_row_id [OF example_raw_row_wf example_transform]
    example_raw_row_wf example_transform by auto

theorem transform_row_keys_witness:
  "dict_wf example_raw_row \<and> transform_row 5 example_raw_row = Inr example_out_row \<and>
   dict_keys example_out_row =
     [KStr ''id'', KStr ''name'', KStr ''email'', KStr ''description'', KStr ''processed_at'']"
  using transform_row_keys [OF example_raw_row_wf example_transform]
    example_raw_row_wf example_transform by simp

theorem transform_row_id_error_witness:
  "transform_row 5 (raw_user_row ''x1'' ''Ann'' ''a@x'' ''p'' ''d'') = Inl (invalid_int ''x1'')"
proof -
  have "dict_wf (raw_user_row ''x1'' ''Ann'' ''a@x'' ''p'' ''d'')" by (simp add: dict_wf_def)
  moreover have "KStr ''password'' \<in> set (dict_keys (raw_user_row ''x1'' ''Ann'' ''a@x'' ''p'' ''d''))" by simp
  moreover have "dict_lookup (raw_user_row ''x1'' ''Ann'' ''a@x'' ''p'' ''d'') (KStr ''id'') = Some (VStr ''x1'')" by simp
  moreover have "py_int ''x1'' = Inl (invalid_int ''x1'')" by (simp add: py_int_eval)
  ultimately show ?thesis by (rule transform_row_id_error)
qed

section \<open>The generator on a run without exceptions\<close>

lemma transform_loop_prefix [simp]:
  "transform_loop clk i (gen_prefix evs g) = gen_prefix evs (transform_loop clk i g)"
  by (cases g) (auto split: sum.splits)

lemma transform_loop_upto:
  "\<forall>k\<in>{i..<i + m}. transform_row (clk k) (x k) = Inr (y k) \<Longrightarrow>
   transform_loop clk i (gen_upto f fin x i m) = gen_upto (\<lambda>k. f k @ [T_row k]) (fin @ [T_finished]) y i m"
  by (induction m arbitrary: i) auto

section \<open>The stage against its contract\<close>

text \<open>The contract of the transform stage: the \<open>k\<close>-th row read becomes the result of
  \<open>transform_row\<close> with the clock read for it, one output per input, in order; the
  first failure is the stage's exception.\<close>

definition transform_spec :: "(nat \<Rightarrow> timestamp) \<Rightarrow> nat \<Rightarrow> pyrow list \<Rightarrow> exc + pyrow list" where
  "transform_spec clk i rs = seq_exc (map (\<lambda>(k, r). transform_row (clk k) r) (zip [i..<i + length rs] rs))"

lemma transform_spec_Cons:
  "transform_spec clk i (r # rs) =
     sbind (transform_row (clk i) r) (\<lambda>y. sbind (transform_spec clk (Suc i) rs) (\<lambda>ys. Inr (y # ys)))"
  by (simp del: upt_Suc add: transform_spec_def upt_Suc_add)

lemma transform_loop_refines:
  "gen_result (transform_loop clk i g) =
     sbind (transform_spec clk i (gen_items g)) (\<lambda>ys. case gen_exc g of None \<Rightarrow> Inr ys | Some e \<Rightarrow> Inl e)"
proof (induction g arbitrary: i)
  case (Yield evs r g)
  show ?case
  proof (cases "transform_row (clk i) r")
    case (Inl e)
    then show ?thesis by (simp add: gen_result_def transform_spec_Cons)
  next
    case (Inr y)
    then show ?thesis using Yield [of "Suc i"]
      by (cases "transform_spec clk (Suc i) (gen_items g)"; cases "gen_exc g")
         (simp_all add: transform_spec_Cons)
  qed
qed (simp_all add: gen_result_def transform_spec_def)

text \<open>C21: transform_users refines its contract: what a consumer that exhausts it
  obtains (all rows, or the exception that ended it) is the contract applied to the
  rows of its source, one output per input in order, followed by the source's own
  exception.\<close>

theorem transform_users_refines:
  "gen_result (transform_users clk g) =
     sbind (transform_spec clk 0 (gen_items g)) (\<lambda>ys. case gen_exc g of None \<Rightarrow> Inr ys | Some e \<Rightarrow> Inl e)"
  by (simp add: transform_users_def transform_loop_refines)

end
