(* ===== verification/Store.thy ===== *)
theory Store
  imports World
begin

text \<open>
  The SQLite side: \<^verbatim>\<open>sqlite3.connect\<close>, the \<^verbatim>\<open>INSERT\<close> of \<^verbatim>\<open>load_data\<close> and the
  store initializer \<^verbatim>\<open>init_db\<close> (\<^verbatim>\<open>src/pipeline.py\<close>, lines 50-80).

  \<open>sqlite_connect fs p\<close> opens the database at \<open>p\<close>: a missing file is created empty,
  an empty text file is an empty database, a non-empty text file opens but fails at the
  first statement (\<open>ConnNotDb\<close>), a directory or an unreachable path fails at once with
  \<^verbatim>\<open>sqlite3.OperationalError\<close>. In both \<^verbatim>\<open>init_db\<close> and \<^verbatim>\<open>load_data\<close> the
  \<^verbatim>\<open>connect\<close> call stands before the \<^verbatim>\<open>try\<close>, so its exception is not caught.

  \<open>execute_insert c r\<close> is \<^verbatim>\<open>cur.execute(query, tuple(row.values()))\<close>, checked as
  SQLite checks it: the statement is prepared (no table, no database), the number of
  parameters is compared with the five placeholders, each parameter is bound in order
  (a list is unsupported, an integer must fit in 64 bits), and the \<^verbatim>\<open>NOT NULL\<close>
  constraints of \<^verbatim>\<open>name\<close>, \<^verbatim>\<open>email\<close>, \<^verbatim>\<open>description\<close>, \<^verbatim>\<open>processed_at\<close> are
  enforced when the row is stored. It returns the row to be stored.
\<close>

datatype conn = Conn "sqlrow list option" | ConnNotDb

definition open_error :: exc where
  "open_error = SqlOperationalError ''unable to open database file''"

definition sqlite_connect :: "fs \<Rightarrow> path \<Rightarrow> exc + (fs \<times> conn)" where
  "sqlite_connect fs p =
     (case fs p of
        Missing \<Rightarrow> Inr (fs(p := DbFile None), Conn None)
      | DbFile t \<Rightarrow> Inr (fs, Conn t)
      | TextFile s \<Rightarrow> if s = [] then Inr (fs, Conn None) else Inr (fs, ConnNotDb)
      | Directory \<Rightarrow> Inl open_error
      | Unreachable \<Rightarrow> Inl open_error)"

definition not_a_db :: exc where
  "not_a_db = SqlDatabaseError ''file is not a database''"

text \<open>The range of SQLite's \<^verbatim>\<open>INTEGER\<close>, checked by \<^verbatim>\<open>_pysqlite_long_as_int64\<close>.\<close>

definition int64_min :: int where "int64_min = - (2 ^ 63)"
definition int64_max :: int where "int64_max = 2 ^ 63 - 1"

definition bind_param :: "pyval \<Rightarrow> exc + sqlval" where
  "bind_param v =
     (case v of
        VStr s \<Rightarrow> Inr (SText s)
      | VNone \<Rightarrow> Inr SNull
      | VInt i \<Rightarrow>
          if int64_min \<le> i \<and> i \<le> int64_max then Inr (SInt i)
          else Inl (OverflowError ''Python int too large to convert to SQLite INTEGER'')
      | VTime t \<Rightarrow> Inr (STime t)
      | VList _ \<Rightarrow> Inl (SqlProgrammingError ''Error binding parameter: type list is not supported''))"

fun bind_params :: "pyval list \<Rightarrow> exc + sqlrow" where
  "bind_params [] = Inr []"
| "bind_params (v # vs) = sbind (bind_param v) (\<lambda>x. sbind (bind_params vs) (\<lambda>xs. Inr (x # xs)))"

definition users_columns :: "string list" where
  "users_columns = [''id'', ''name'', ''email'', ''description'', ''processed_at'']"

definition users_not_null :: "bool list" where
  "users_not_null = [False, True, True, True, True]"

text \<open>The first column, in table order, that is \<^verbatim>\<open>NOT NULL\<close> and receives \<^verbatim>\<open>NULL\<close>.\<close>

definition not_null_check :: "sqlrow \<Rightarrow> exc + sqlrow" where
  "not_null_check xs =
     (case filter (\<lambda>(col, nn, x). nn \<and> x = SNull) (zip users_columns (zip users_not_null xs)) of
        [] \<Rightarrow> Inr xs
      | (col, _) # _ \<Rightarrow> Inl (SqlIntegrityError (''NOT NULL constraint failed: users.'' @ col)))"

definition execute_insert :: "conn \<Rightarrow> pyrow \<Rightarrow> exc + sqlrow" where
  "execute_insert c r =
     (case c of
        ConnNotDb \<Rightarrow> Inl not_a_db
      | Conn None \<Rightarrow> Inl (SqlOperationalError ''no such table: users'')
      | Conn (Some _) \<Rightarrow>
          if length (dict_values r) \<noteq> 5
          then Inl (SqlProgrammingError ''Incorrect number of bindings supplied'')
          else sbind (bind_params (dict_values r)) not_null_check)"

section \<open>\<^verbatim>\<open>init_db\<close>\<close>

text \<open>
  Unlink the file if it is a regular file, connect (uncaught on failure), execute
  \<^verbatim>\<open>CREATE TABLE IF NOT EXISTS users\<close> inside \<^verbatim>\<open>with conn\<close>, report. The result is
  the exception that escapes, if any, the file system after the call, and the
  printed lines.
\<close>

definition init_db :: "path \<Rightarrow> fs \<Rightarrow> exc option \<times> fs \<times> event list" where
  "init_db p fs =
     (let fs0 = (if is_regular_file (fs p) then fs(p := Missing) else fs)
      in case sqlite_connect fs0 p of
           Inl e \<Rightarrow> (Some e, fs0, [])
         | Inr (fs1, ConnNotDb) \<Rightarrow> (None, fs1, [Init_sqlite_error not_a_db])
         | Inr (fs1, Conn t) \<Rightarrow>
             (None, fs1(p := DbFile (Some (case t of None \<Rightarrow> [] | Some rows \<Rightarrow> rows))), [Init_ok]))"

section \<open>Lemmas\<close>

lemma execute_insert_user_row:
  "int64_min \<le> i \<Longrightarrow> i \<le> int64_max \<Longrightarrow>
   execute_insert (Conn (Some rows))
     [(KStr ''id'', VInt i), (KStr ''name'', VStr n), (KStr ''email'', VStr e),
      (KStr ''description'', VStr d), (KStr ''processed_at'', VTime t)] =
   Inr [SInt i, SText n, SText e, SText d, STime t]"
  by (simp add: execute_insert_def bind_param_def not_null_check_def users_columns_def users_not_null_def)

lemma init_db_eq:
  "init_db p fs =
     (if fs p = Directory \<or> fs p = Unreachable then (Some open_error, fs, [])
      else (None, fs(p := DbFile (Some [])), [Init_ok]))"
  by (cases "fs p") (auto simp: init_db_def sqlite_connect_def)

lemma init_db_reset:
  "fs p \<noteq> Directory \<Longrightarrow> fs p \<noteq> Unreachable \<Longrightarrow>
   init_db p fs = (None, fs(p := DbFile (Some [])), [Init_ok])"
  by (simp add: init_db_eq)

section \<open>Properties\<close>

text \<open>C12: init_db either lets the exception of sqlite3.connect escape (the path is a
  directory or its parent is missing) and changes nothing, or leaves at the path a
  database whose table users exists and is empty, whatever was there before (an old
  database with rows, a text file, nothing), and prints that the table was created.\<close>

theorem init_db_result:
  "init_db p fs =
     (if fs p = Directory \<or> fs p = Unreachable then (Some open_error, fs, [])
      else (None, fs(p := DbFile (Some [])), [Init_ok]))"
  by (rule init_db_eq)

end
