(* ===== verification/Load.thy ===== *)
theory Load
  imports Store
begin

text \<open>
  \<^verbatim>\<open>load_data\<close> (\<^verbatim>\<open>src/pipeline.py\<close>, lines 108-135). It connects (outside the
  \<^verbatim>\<open>try\<close>: a failure escapes), then inside \<^verbatim>\<open>with conn\<close> prints
  \<^verbatim>\<open>L: start load\<close> and pulls the transform generator, printing
  \<^verbatim>\<open>L: insert row ...\<close> and executing the insert for every row. The rows inserted
  are pending in the implicit transaction (\<open>tx\<close>); leaving \<^verbatim>\<open>with conn\<close> normally
  commits them, an exception rolls them back. Every exception raised in the block,
  whether by SQLite or by the generators it pulls, is caught: a \<^verbatim>\<open>sqlite3.Error\<close>
  prints \<^verbatim>\<open>Database error\<close>, any other \<^verbatim>\<open>An unexpected error occurred\<close>, and
  nothing is raised to the caller.

  The source generator is a function of the file system: it runs when it is first
  pulled, after \<^verbatim>\<open>connect\<close> may have created the database file.
\<close>

fun load_loop :: "conn \<Rightarrow> sqlrow list \<Rightarrow> pyrow gen \<Rightarrow> event list \<times> (exc + sqlrow list)" where
  "load_loop c tx (Yield evs r g) =
     (case execute_insert c r of
        Inl e \<Rightarrow> (evs @ [L_insert r], Inl e)
      | Inr x \<Rightarrow> (let (evs', res) = load_loop c (tx @ [x]) g in (evs @ [L_insert r] @ evs', res)))"
| "load_loop c tx (Stop evs) = (evs, Inr tx)"
| "load_loop c tx (Raise evs e) = (evs, Inl e)"

text \<open>Leaving \<^verbatim>\<open>with conn\<close> normally: the pending rows are appended to the table.\<close>

definition commit :: "path \<Rightarrow> conn \<Rightarrow> sqlrow list \<Rightarrow> fs \<Rightarrow> fs" where
  "commit p c tx fs =
     (case c of
        Conn (Some rows) \<Rightarrow> if tx = [] then fs else fs(p := DbFile (Some (rows @ tx)))
      | _ \<Rightarrow> fs)"

definition report :: "exc \<Rightarrow> event" where
  "report e = (if is_sqlite_error e then L_db_error e else L_unexpected e)"

definition load_data :: "(fs \<Rightarrow> pyrow gen) \<Rightarrow> path \<Rightarrow> fs \<Rightarrow> exc option \<times> fs \<times> event list" where
  "load_data src p fs =
     (case sqlite_connect fs p of
        Inl e \<Rightarrow> (Some e, fs, [])
      | Inr (fs1, c) \<Rightarrow>
          (let (evs, res) = load_loop c [] (src fs1)
           in case res of
                Inr tx \<Rightarrow> (None, commit p c tx fs1, L_start # evs @ [L_finished])
              | Inl e \<Rightarrow> (None, fs1, L_start # evs @ [report e])))"

section \<open>Lemmas\<close>

text \<open>The rows \<open>load_loop\<close> would insert for the items of a generator, as a
  reference: the items in order, each through \<open>execute_insert\<close>, the first failing
  insert being the exception, and then the generator's own exception.\<close>

definition load_spec :: "conn \<Rightarrow> pyrow gen \<Rightarrow> exc + sqlrow list" where
  "load_spec c g =
     sbind (seq_exc (map (execute_insert c) (gen_items g)))
       (\<lambda>xs. case gen_exc g of None \<Rightarrow> Inr xs | Some e \<Rightarrow> Inl e)"

lemma load_loop_refines:
  "snd (load_loop c tx g) = sbind (load_spec c g) (\<lambda>xs. Inr (tx @ xs))"
proof (induction g arbitrary: tx)
  case (Yield evs r g)
  then show ?case
    by (cases "execute_insert c r")
       (auto simp: load_spec_def sbind_def split_def split: sum.splits option.splits)
qed (auto simp: load_spec_def)

lemma load_loop_trace:
  "seq_exc (map (execute_insert c) (gen_items g)) = Inr xs \<Longrightarrow>
   fst (load_loop c tx g) = gen_trace_with (\<lambda>r. [L_insert r]) g"
proof (induction g arbitrary: tx xs)
  case (Yield evs r g)
  then show ?case by (auto simp: split_def split: sum.splits)
qed auto

lemma load_data_connect:
  "sqlite_connect fs p = Inr (fs1, c) \<Longrightarrow>
   load_data src p fs =
     (case load_spec c (src fs1) of
        Inr xs \<Rightarrow> (None, commit p c xs fs1, L_start # fst (load_loop c [] (src fs1)) @ [L_finished])
      | Inl e \<Rightarrow> (None, fs1, L_start # fst (load_loop c [] (src fs1)) @ [report e]))"
  using load_loop_refines [of c "[]" "src fs1"]
  by (auto simp: load_data_def sbind_def split_def split: sum.splits)

lemma commit_at:
  "fs p = DbFile (Some rows) \<Longrightarrow> commit p (Conn (Some rows)) xs fs = fs(p := DbFile (Some (rows @ xs)))"
  by (auto simp: commit_def fun_upd_idem)

lemma commit_other [simp]: "q \<noteq> p \<Longrightarrow> commit p c xs fs q = fs q"
  by (auto simp: commit_def split: conn.splits option.splits)

lemma load_data_upto:
  assumes "sqlite_connect fs p = Inr (fs1, Conn (Some rows))"
    and "src fs1 = gen_prefix evs (gen_upto f fin y 0 m)"
    and "\<forall>k<m. execute_insert (Conn (Some rows)) (y k) = Inr (z k)"
  shows "load_data src p fs =
     (None, commit p (Conn (Some rows)) (map z [0..<m]) fs1,
      L_start # evs @ concat (map (\<lambda>k. f k @ [L_insert (y k)]) [0..<m]) @ fin @ [L_finished])"
proof -
  have ins: "seq_exc (map (execute_insert (Conn (Some rows))) (map y [0..<m])) = Inr (map z [0..<m])"
    using assms(3) by (simp add: seq_exc_map_Inr)
  then have "load_spec (Conn (Some rows)) (src fs1) = Inr (map z [0..<m])"
    using assms(2) by (simp add: load_spec_def)
  moreover have "fst (load_loop (Conn (Some rows)) [] (src fs1)) =
      evs @ concat (map (\<lambda>k. f k @ [L_insert (y k)]) [0..<m]) @ fin"
    using load_loop_trace [of "Conn (Some rows)"] ins assms(2) by simp
  ultimately show ?thesis using load_data_connect [OF assms(1)] by simp
qed

section \<open>Properties\<close>

text \<open>C7: once the connection is open, load_data commits all or nothing: the database
  afterwards is the one \<open>commit\<close> gives for the rows of the reference \<open>load_spec\<close>
  (every item of the source inserted in order) when all of them insert and the source
  ends normally, and the database as it was after connecting otherwise.\<close>

theorem load_data_all_or_nothing:
  assumes "sqlite_connect fs p = Inr (fs1, c)"
  shows "fst (snd (load_data src p fs)) =
           (case load_spec c (src fs1) of Inr xs \<Rightarrow> commit p c xs fs1 | Inl e \<Rightarrow> fs1)"
  using load_data_connect [OF assms] by (simp split: sum.splits)

text \<open>C13: the only exception load_data lets escape is the one of sqlite3.connect,
  which stands before the try block; every exception raised while loading is caught.\<close>

theorem load_data_escaping_exception:
  "fst (load_data src p fs) = (case sqlite_connect fs p of Inl e \<Rightarrow> Some e | Inr _ \<Rightarrow> None)"
proof (cases "sqlite_connect fs p")
  case (Inl e)
  then show ?thesis by (simp add: load_data_def)
next
  case (Inr x)
  then obtain fs1 c where "sqlite_connect fs p = Inr (fs1, c)" by (cases x) auto
  then show ?thesis using load_data_connect [of fs p fs1 c src] by (simp split: sum.splits)
qed

text \<open>C14: an exception raised by the source generator (the extract or the transform
  stage) does not abort the run: load_data returns normally, commits no row, and the
  last line it prints reports the exception.\<close>

theorem load_data_swallows_source_error:
  assumes "sqlite_connect fs p = Inr (fs1, c)" and "gen_exc (src fs1) = Some e"
  shows "fst (load_data src p fs) = None \<and> fst (snd (load_data src p fs)) = fs1 \<and>
         (\<exists>e'. last (snd (snd (load_data src p fs))) = report e')"
proof -
  have "\<exists>e'. load_spec c (src fs1) = Inl e'"
    using assms(2) by (auto simp: load_spec_def sbind_def split: sum.splits)
  then show ?thesis using load_data_connect [OF assms(1)] by auto
qed

theorem load_data_all_or_nothing_witness:
  "fst (snd (load_data (\<lambda>fs. gen_of_list [[(KStr ''id'', VInt 1)]]) ''db'' (\<lambda>p. DbFile (Some [])))) =
     (\<lambda>p. DbFile (Some []))"
proof -
  have c: "sqlite_connect (\<lambda>p. DbFile (Some [])) ''db'' = Inr (\<lambda>p. DbFile (Some []), Conn (Some []))"
    by (simp add: sqlite_connect_def)
  show ?thesis using load_data_all_or_nothing [OF c]
    by (simp add: load_spec_def execute_insert_def)
qed

theorem load_data_swallows_source_error_witness:
  "fst (load_data (\<lambda>fs. Raise [] (ValueError ''x'')) ''db'' (\<lambda>p. Missing)) = None \<and>
   fst (snd (load_data (\<lambda>fs. Raise [] (ValueError ''x'')) ''db'' (\<lambda>p. Missing))) =
     (\<lambda>p. Missing)(''db'' := DbFile None) \<and>
   (\<exists>e'. last (snd (snd (load_data (\<lambda>fs. Raise [] (ValueError ''x'')) ''db'' (\<lambda>p. Missing)))) = report e')"
proof -
  have c: "sqlite_connect (\<lambda>p. Missing) ''db'' = Inr ((\<lambda>p. Missing)(''db'' := DbFile None), Conn None)"
    by (simp add: sqlite_connect_def)
  show ?thesis by (rule load_data_swallows_source_error [OF c]) simp
qed

text \<open>C19: a row whose id lies outside the 64-bit range of SQLite's INTEGER makes
  cur.execute raise OverflowError. It is not a sqlite3.Error, so load_data reports it
  through its second handler as an unexpected error, right after the insert line, and
  the transaction is rolled back.\<close>

theorem load_data_id_overflow:
  assumes "sqlite_connect fs p = Inr (fs1, Conn (Some rows))"
    and "src fs1 = Yield evs r g"
    and "r = [(KStr ''id'', VInt i), (KStr ''name'', VStr n), (KStr ''email'', VStr e),
              (KStr ''description'', VStr d), (KStr ''processed_at'', VTime t)]"
    and "i < int64_min \<or> int64_max < i"
  shows "load_data src p fs =
           (None, fs1, L_start # evs @
              [L_insert r, L_unexpected (OverflowError ''Python int too large to convert to SQLite INTEGER'')])"
proof -
  have "execute_insert (Conn (Some rows)) r =
          Inl (OverflowError ''Python int too large to convert to SQLite INTEGER'')"
    using assms(3,4) by (auto simp: execute_insert_def bind_param_def)
  then show ?thesis using assms(1,2) by (simp add: load_data_def report_def)
qed

theorem load_data_id_overflow_witness:
  "load_data (\<lambda>fs. Yield [] [(KStr ''id'', VInt (2 ^ 63)), (KStr ''name'', VStr ''a''), (KStr ''email'', VStr ''b''),
                              (KStr ''description'', VStr ''c''), (KStr ''processed_at'', VTime 0)] (Stop []))
     ''db'' (\<lambda>p. DbFile (Some [])) =
   (None, \<lambda>p. DbFile (Some []),
    [L_start, L_insert [(KStr ''id'', VInt (2 ^ 63)), (KStr ''name'', VStr ''a''), (KStr ''email'', VStr ''b''),
                        (KStr ''description'', VStr ''c''), (KStr ''processed_at'', VTime 0)],
     L_unexpected (OverflowError ''Python int too large to convert to SQLite INTEGER'')])"
proof -
  have c: "sqlite_connect (\<lambda>p. DbFile (Some [])) ''db'' = Inr (\<lambda>p. DbFile (Some []), Conn (Some []))"
    by (simp add: sqlite_connect_def)
  have "(2::int) ^ 63 < int64_min \<or> int64_max < 2 ^ 63" by (simp add: int64_max_def)
  then show ?thesis using load_data_id_overflow [OF c refl refl] by simp
qed

end
