(* ===== verification/Pipeline.thy ===== *)
theory Pipeline
  imports Generate Extract Transform Load CsvRoundtrip
begin

text \<open>
  The script of \<^verbatim>\<open>src/pipeline.py\<close> (lines 138-153): its constants and the run of
  \<^verbatim>\<open>__main__\<close>, which generates the CSV file, initializes the database and then
  lets \<^verbatim>\<open>load_data\<close> pull \<^verbatim>\<open>transform_users(extract_users(csv_file))\<close>. An
  exception escaping one of the calls ends the process there.
\<close>

definition csv_file :: path where "csv_file = ''/tmp/users.csv''"
definition csv_file_fieldnames :: "string list" where
  "csv_file_fieldnames = [''id'', ''name'', ''email'', ''password'', ''description'']"
definition db_path :: path where "db_path = ''/tmp/users.db''"
definition num_records :: nat where "num_records = 20"

definition pipeline_source :: "(nat \<Rightarrow> timestamp) \<Rightarrow> fs \<Rightarrow> pyrow gen" where
  "pipeline_source clk fs = transform_users clk (extract_users fs csv_file)"

definition main_run :: "(nat \<Rightarrow> fake_user) \<Rightarrow> (nat \<Rightarrow> timestamp) \<Rightarrow> fs \<Rightarrow> exc option \<times> fs \<times> event list" where
  "main_run fake clk fs0 =
     (case generate_csv csv_file csv_file_fieldnames num_records fake fs0 of
        (Some e, fs1, ev1) \<Rightarrow> (Some e, fs1, ev1)
      | (None, fs1, ev1) \<Rightarrow>
          (case init_db db_path fs1 of
             (Some e, fs2, ev2) \<Rightarrow> (Some e, fs2, ev1 @ ev2)
           | (None, fs2, ev2) \<Rightarrow>
               (case load_data (pipeline_source clk) db_path fs2 of
                  (e3, fs3, ev3) \<Rightarrow> (e3, fs3, ev1 @ ev2 @ ev3))))"

section \<open>The run without exceptions\<close>

text \<open>The condition on Faker's output under which nothing raises: no generated string
  holds a carriage return (which the text-mode reader would turn into a line end) or
  exceeds the reader's field size limit.\<close>

definition fake_ok :: "fake_user \<Rightarrow> bool" where
  "fake_ok u = list_all (\<lambda>f. CR \<notin> set f \<and> length f \<le> csv_field_size_limit)
     [fake_first_name u, fake_email u, fake_password u, fake_description u]"

text \<open>The \<open>k\<close>-th user as DictReader reads it, as \<^verbatim>\<open>transform_users\<close> yields it and as
  it is stored.\<close>

definition read_user :: "(nat \<Rightarrow> fake_user) \<Rightarrow> nat \<Rightarrow> pyrow" where
  "read_user fake k = raw_user_row (nat_digits k) (fake_first_name (fake k)) (fake_email (fake k))
     (fake_password (fake k)) (fake_description (fake k))"

definition transformed_user :: "(nat \<Rightarrow> fake_user) \<Rightarrow> (nat \<Rightarrow> timestamp) \<Rightarrow> nat \<Rightarrow> pyrow" where
  "transformed_user fake clk k =
     [(KStr ''id'', VInt (int k)), (KStr ''name'', VStr (fake_first_name (fake k))),
      (KStr ''email'', VStr (py_lower (fake_email (fake k)))),
      (KStr ''description'', VStr (filter py_isalnum (fake_description (fake k)))),
      (KStr ''processed_at'', VTime (clk k))]"

definition stored_user :: "(nat \<Rightarrow> fake_user) \<Rightarrow> (nat \<Rightarrow> timestamp) \<Rightarrow> nat \<Rightarrow> sqlrow" where
  "stored_user fake clk k =
     [SInt (int k), SText (fake_first_name (fake k)), SText (py_lower (fake_email (fake k))),
      SText (filter py_isalnum (fake_description (fake k))), STime (clk k)]"

definition csv_text :: "(nat \<Rightarrow> fake_user) \<Rightarrow> string" where
  "csv_text fake = concat (map csv_write_row (user_keys # map user_fields (get_user num_records fake)))"

lemma csv_file_db_path [simp]: "csv_file \<noteq> db_path" "db_path \<noteq> csv_file"
  by (simp_all add: csv_file_def db_path_def)

lemma csv_file_fieldnames_user_keys: "csv_file_fieldnames = user_keys"
  by (simp add: csv_file_fieldnames_def user_keys_def)

lemma num_records_digits: "int num_records \<le> 10 ^ int_max_str_digits"
proof -
  have "(10::int) ^ 2 \<le> 10 ^ int_max_str_digits"
    by (rule power_increasing) (simp_all add: int_max_str_digits_def)
  then show ?thesis by (simp add: num_records_def)
qed

lemma user_id_digits_ok:
  assumes "k < num_records"
  shows "CR \<notin> set (nat_digits k) \<and> length (nat_digits k) \<le> csv_field_size_limit"
proof
  have "\<not> is_digit CR" by (simp add: is_digit_def)
  then show "CR \<notin> set (nat_digits k)"
    using nat_digits_digits [of k] by (auto simp: list_all_iff)
  have "k < 10 ^ 2" using assms by (simp add: num_records_def)
  then have "length (nat_digits k) \<le> 2" by (rule length_nat_digits_le [rotated]) simp
  then show "length (nat_digits k) \<le> csv_field_size_limit" by (simp add: csv_field_size_limit_def)
qed

lemma csv_text_fields_ok:
  assumes "\<forall>k<num_records. fake_ok (fake k)"
  shows "\<forall>r\<in>set (user_keys # map user_fields (get_user num_records fake)).
           \<forall>f\<in>set r. CR \<notin> set f \<and> length f \<le> csv_field_size_limit"
  using assms user_id_digits_ok
  by (auto simp: user_keys_def csv_field_size_limit_def get_user_def user_fields_def fake_ok_def)

lemma py_int_user_id:
  assumes "k < num_records"
  shows "py_int (nat_digits k) = Inr (int k)"
proof -
  have "int k < 10 ^ int_max_str_digits" using assms num_records_digits by linarith
  then have "py_str_int (int k) = Inr (nat_digits k)" using py_str_int_nonneg [of "int k"] by simp
  then show ?thesis by (rule py_int_str_int)
qed

lemma transform_read_user:
  "k < num_records \<Longrightarrow> transform_row (clk k) (read_user fake k) = Inr (transformed_user fake clk k)"
  by (simp add: read_user_def transformed_user_def transform_row_raw_user py_int_user_id)

lemma dict_reader_csv_text:
  assumes "\<forall>k<num_records. fake_ok (fake k)"
  shows "dict_reader csv_field_size_limit (text_lines (csv_text fake)) =
           gen_upto (\<lambda>k. []) [] (read_user fake) 0 num_records"
proof -
  have "dict_reader csv_field_size_limit (text_lines (csv_text fake)) =
          dict_rows user_keys (gen_of_list (map user_fields (get_user num_records fake)))"
    unfolding csv_text_def by (rule dict_reader_written [OF csv_text_fields_ok [OF assms]])
  also have "\<dots> = gen_of_list (map (mk_dict_row user_keys) (map user_fields (get_user num_records fake)))"
    by (rule dict_rows_of_list) (auto simp: user_fields_def)
  also have "map (mk_dict_row user_keys) (map user_fields (get_user num_records fake)) =
               map (read_user fake) [0..<0 + num_records]"
    by (simp add: get_user_def user_fields_def read_user_def user_keys_def mk_dict_row_same_length)
  finally show ?thesis by (simp only: gen_of_list_upto)
qed

lemma pipeline_source_run:
  assumes "fs csv_file = TextFile (csv_text fake)" and "\<forall>k<num_records. fake_ok (fake k)"
  shows "pipeline_source clk fs =
           gen_prefix [T_start, E_start]
             (gen_upto (\<lambda>k. [E_row k, T_row k]) [E_finished, T_finished] (transformed_user fake clk) 0 num_records)"
proof -
  have "extract_users fs csv_file =
          gen_prefix [E_start] (gen_upto (\<lambda>k. [E_row k]) [E_finished] (read_user fake) 0 num_records)"
    using extract_loop_upto [of 0 "\<lambda>k. []" "[]" "read_user fake" num_records]
    by (simp add: extract_users_def assms(1) dict_reader_csv_text [OF assms(2)])
  moreover have "transform_loop clk 0 (gen_upto (\<lambda>k. [E_row k]) [E_finished] (read_user fake) 0 num_records) =
      gen_upto (\<lambda>k. [E_row k, T_row k]) [E_finished, T_finished] (transformed_user fake clk) 0 num_records"
    using transform_loop_upto [where i = 0 and m = num_records and clk = clk and x = "read_user fake"
        and y = "transformed_user fake clk" and f = "\<lambda>k. [E_row k]" and fin = "[E_finished]"]
    by (simp add: transform_read_user)
  ultimately show ?thesis
    by (simp add: pipeline_source_def transform_users_def)
qed

lemma insert_transformed_user:
  "k < num_records \<Longrightarrow>
   execute_insert (Conn (Some rows)) (transformed_user fake clk k) = Inr (stored_user fake clk k)"
  by (simp add: transformed_user_def stored_user_def execute_insert_user_row int64_min_def
      int64_max_def num_records_def)

lemma main_run_ok:
  assumes "fs0 csv_file \<noteq> Directory" and "fs0 csv_file \<noteq> Unreachable"
    and "fs0 db_path \<noteq> Directory" and "fs0 db_path \<noteq> Unreachable"
    and "\<forall>k<num_records. fake_ok (fake k)"
  shows "main_run fake clk fs0 =
    (None,
     fs0(csv_file := TextFile (csv_text fake),
         db_path := DbFile (Some (map (stored_user fake clk) [0..<num_records]))),
     [Csv_written num_records csv_file, Init_ok, L_start, T_start, E_start] @
     concat (map (\<lambda>k. [E_row k, T_row k, L_insert (transformed_user fake clk k)]) [0..<num_records]) @
     [E_finished, T_finished, L_finished])"
proof -
  let ?fs1 = "fs0(csv_file := TextFile (csv_text fake))"
  let ?fs2 = "?fs1(db_path := DbFile (Some []))"
  have g: "generate_csv csv_file csv_file_fieldnames num_records fake fs0 =
      (None, ?fs1, [Csv_written num_records csv_file])"
    using generate_csv_ok [of fs0 csv_file num_records fake, OF assms(1,2) num_records_digits]
    by (simp add: csv_file_fieldnames_user_keys csv_text_def)
  have i: "init_db db_path ?fs1 = (None, ?fs2, [Init_ok])"
    using init_db_reset [of ?fs1 db_path] assms(3,4) by simp
  have c: "sqlite_connect ?fs2 db_path = Inr (?fs2, Conn (Some []))"
    by (simp add: sqlite_connect_def)
  have s: "pipeline_source clk ?fs2 =
      gen_prefix [T_start, E_start]
        (gen_upto (\<lambda>k. [E_row k, T_row k]) [E_finished, T_finished] (transformed_user fake clk) 0 num_records)"
    by (rule pipeline_source_run) (simp_all add: assms(5))
  have ins: "\<forall>k<num_records. execute_insert (Conn (Some [])) (transformed_user fake clk k) =
      Inr (stored_user fake clk k)"
    by (simp add: insert_transformed_user)
  have ne: "[0..<num_records] \<noteq> []" by (simp add: num_records_def)
  show ?thesis
    using load_data_upto [where src = "pipeline_source clk" and z = "stored_user fake clk", OF c s ins] g i ne by (simp add: main_run_def commit_def)
qed

section \<open>Any file of five-column rows\<close>

text \<open>The row \<^verbatim>\<open>transform_users\<close> yields for the \<open>k\<close>-th data line \<open>r\<close> of a file
  with the header \<open>user_keys\<close>, its id parsed as \<open>i\<close>, and the row stored for it.\<close>

definition transformed_line :: "(nat \<Rightarrow> timestamp) \<Rightarrow> nat \<Rightarrow> int \<Rightarrow> string list \<Rightarrow> pyrow" where
  "transformed_line clk k i r =
     [(KStr ''id'', VInt i), (KStr ''name'', VStr (r ! 1)), (KStr ''email'', VStr (py_lower (r ! 2))),
      (KStr ''description'', VStr (filter py_isalnum (r ! 4))), (KStr ''processed_at'', VTime (clk k))]"

definition stored_line :: "(nat \<Rightarrow> timestamp) \<Rightarrow> nat \<Rightarrow> int \<Rightarrow> string list \<Rightarrow> sqlrow" where
  "stored_line clk k i r =
     [SInt i, SText (r ! 1), SText (py_lower (r ! 2)), SText (filter py_isalnum (r ! 4)), STime (clk k)]"

lemma transform_line:
  assumes "length r = 5" and "py_int (r ! 0) = Inr i"
  shows "transform_row (clk k) (mk_dict_row user_keys r) = Inr (transformed_line clk k i r)"
proof -
  obtain a b c d e where r: "r = [a, b, c, d, e]" using length_5_conv [OF assms(1)] by blast
  then have "mk_dict_row user_keys r = raw_user_row a b c d e"
    by (simp add: mk_dict_row_same_length user_keys_def)
  then show ?thesis using assms(2) r
    by (simp add: transform_row_raw_user transformed_line_def)
qed

lemma insert_transformed_line:
  "length r = 5 \<Longrightarrow> int64_min \<le> i \<Longrightarrow> i \<le> int64_max \<Longrightarrow>
   execute_insert (Conn (Some old)) (transformed_line clk k i r) = Inr (stored_line clk k i r)"
  by (simp add: transformed_line_def stored_line_def execute_insert_user_row)

lemma load_csv_file:
  assumes "fs csv_file = TextFile (concat (map csv_write_row (user_keys # rows)))"
    and "fs db_path = DbFile (Some old)"
    and "\<forall>r\<in>set rows. length r = 5 \<and> (\<forall>f\<in>set r. CR \<notin> set f \<and> length f \<le> csv_field_size_limit)"
    and "\<forall>k<length rows. py_int (rows ! k ! 0) = Inr (ids k) \<and> int64_min \<le> ids k \<and> ids k \<le> int64_max"
  shows "load_data (pipeline_source clk) db_path fs =
     (None, commit db_path (Conn (Some old)) (map (\<lambda>k. stored_line clk k (ids k) (rows ! k)) [0..<length rows]) fs,
      L_start # [T_start, E_start] @
      concat (map (\<lambda>k. [E_row k, T_row k, L_insert (transformed_line clk k (ids k) (rows ! k))]) [0..<length rows]) @
      [E_finished, T_finished, L_finished])"
proof -
  let ?x = "\<lambda>k. mk_dict_row user_keys (rows ! k)"
  let ?y = "\<lambda>k. transformed_line clk k (ids k) (rows ! k)"
  have fields: "\<forall>r\<in>set (user_keys # rows). \<forall>f\<in>set r. CR \<notin> set f \<and> length f \<le> csv_field_size_limit"
    using assms(3) by (simp add: user_keys_def csv_field_size_limit_def)
  have m: "map (mk_dict_row user_keys) rows = map ?x [0..<0 + length rows]"
    by (rule nth_equalityI) simp_all
  have "dict_reader csv_field_size_limit (text_lines (concat (map csv_write_row (user_keys # rows)))) =
      dict_rows user_keys (gen_of_list rows)"
    by (rule dict_reader_written [OF fields])
  also have "\<dots> = gen_of_list (map (mk_dict_row user_keys) rows)"
    by (rule dict_rows_of_list) (use assms(3) in auto)
  also have "\<dots> = gen_upto (\<lambda>k. []) [] ?x 0 (length rows)"
    by (simp only: m gen_of_list_upto)
  finally have dr: "dict_reader csv_field_size_limit (text_lines (concat (map csv_write_row (user_keys # rows)))) =
      gen_upto (\<lambda>k. []) [] ?x 0 (length rows)" .
  have ext: "extract_users fs csv_file =
      gen_prefix [E_start] (gen_upto (\<lambda>k. [E_row k]) [E_finished] ?x 0 (length rows))"
    using extract_loop_upto [of 0 "\<lambda>k. []" "[]" ?x "length rows"]
    by (simp only: extract_users_def assms(1) entry.case dr) simp
  have tr: "transform_loop clk 0 (gen_upto (\<lambda>k. [E_row k]) [E_finished] ?x 0 (length rows)) =
      gen_upto (\<lambda>k. [E_row k, T_row k]) [E_finished, T_finished] ?y 0 (length rows)"
    using transform_loop_upto [where i = 0 and m = "length rows" and clk = clk and x = ?x
        and y = ?y and f = "\<lambda>k. [E_row k]" and fin = "[E_finished]"] assms(3,4)
    by (simp add: transform_line)
  have src: "pipeline_source clk fs =
      gen_prefix [T_start, E_start] (gen_upto (\<lambda>k. [E_row k, T_row k]) [E_finished, T_finished] ?y 0 (length rows))"
    by (simp add: pipeline_source_def transform_users_def ext tr)
  have c: "sqlite_connect fs db_path = Inr (fs, Conn (Some old))"
    by (simp add: sqlite_connect_def assms(2))
  have ins: "\<forall>k<length rows. execute_insert (Conn (Some old)) (?y k) =
      Inr (stored_line clk k (ids k) (rows ! k))"
    using assms(3,4) by (simp add: insert_transformed_line)
  show ?thesis
    using load_data_upto [where src = "pipeline_source clk" and z = "\<lambda>k. stored_line clk k (ids k) (rows ! k)",
        OF c src ins] by simp
qed

section \<open>Rows of any length under the script's header\<close>

lemma mk_dict_row_wf: "dict_wf (mk_dict_row h r)"
proof -
  have "dict_wf (foldl (\<lambda>d k. dict_set d (KStr k) VNone) d ks)" if "dict_wf d" for d ks
    using that by (induction ks arbitrary: d) (auto intro: dict_set_wf)
  then show ?thesis
    by (simp add: mk_dict_row_def Let_def dict_from_pairs_wf dict_set_wf)
qed

lemma long_row_split:
  assumes "5 < length r"
  obtains a b c d e rest where "r = [a, b, c, d, e] @ rest" and "rest \<noteq> []"
proof -
  obtain a b c d e where "take 5 r = [a, b, c, d, e]"
    using assms length_5_conv [of "take 5 r"] by auto
  then have "r = [a, b, c, d, e] @ drop 5 r" and "drop 5 r \<noteq> []"
    using assms append_take_drop_id [of 5 r] by auto
  then show ?thesis using that by blast
qed

lemma transform_long_row:
  assumes "rest \<noteq> []"
  shows "transform_row t (mk_dict_row user_keys (a # b # c # d # e # rest)) =
    sbind (py_int a) (\<lambda>i. Inr
      [(KStr ''id'', VInt i), (KStr ''name'', VStr b), (KStr ''email'', VStr (py_lower c)),
       (KStr ''description'', VStr (filter py_isalnum e)), (KNone, VList rest), (KStr ''processed_at'', VTime t)])"
proof -
  have "mk_dict_row user_keys (a # b # c # d # e # rest) = raw_user_row a b c d e @ [(KNone, VList rest)]"
    using assms by (simp add: mk_dict_row_def user_keys_def dict_from_pairs_def)
  then show ?thesis
    by (cases "py_int a")
       (simp_all add: transform_row_def delitem_def getitem_def int_of_value_def lower_value_def alnum_join_def)
qed

lemma fill_none_lookup:
  "dict_lookup (foldl (\<lambda>d k. dict_set d (KStr k) VNone) d ks) (KStr k) =
     (if k \<in> set ks then Some VNone else dict_lookup d (KStr k))"
  by (induction ks arbitrary: d) auto

lemma description_in_drop: "n < 5 \<Longrightarrow> ''description'' \<in> set (drop n user_keys)"
  by (auto simp: user_keys_def less_Suc_eq numeral_eq_Suc)

lemma short_row_description:
  "length r < 5 \<Longrightarrow> dict_lookup (mk_dict_row user_keys r) (KStr ''description'') = Some VNone"
  using description_in_drop [of "length r"]
  by (simp add: mk_dict_row_def Let_def fill_none_lookup user_keys_def)

lemma transform_description_None:
  assumes "dict_wf r" and "dict_lookup r (KStr ''description'') = Some VNone"
  shows "transform_row t r \<noteq> Inr r'"
proof
  assume "transform_row t r = Inr r'"
  then have "\<exists>d. sbind (getitem r (KStr ''description'')) alnum_join = Inr d"
    by (rule transform_row_cases [OF assms(1)]) blast
  then show False using assms(2) by (simp add: getitem_def alnum_join_def)
qed

end
