(* ===== verification/Spec2Isabelle.thy ===== *)
theory Spec2Isabelle
  imports CsvSafety Pipeline
begin

text \<open>
  \<^bold>\<open>A verification model of \<^verbatim>\<open>src/pipeline.py\<close>.\<close>

  The program is a script of four functions and a \<^verbatim>\<open>__main__\<close> block. It writes twenty
  fake users to \<^verbatim>\<open>/tmp/users.csv\<close> (\<^verbatim>\<open>generate_csv\<close>), recreates the SQLite database
  \<^verbatim>\<open>/tmp/users.db\<close> with an empty table \<^verbatim>\<open>users\<close> (\<^verbatim>\<open>init_db\<close>), and then lets
  \<^verbatim>\<open>load_data\<close> pull rows from \<^verbatim>\<open>transform_users\<close>, which pulls them from
  \<^verbatim>\<open>extract_users\<close>: three generators chained lazily, one row at a time.

  \<^medskip>\<^bold>\<open>Theories and what they model.\<close>
  \<^item> \<open>Prelude\<close>: Python exceptions as the datatype \<open>exc\<close>; a fallible computation as a
    value of \<open>exc + 'a\<close> sequenced with \<open>sbind\<close> (\<open>Inl\<close> is the raised exception).
  \<^item> \<open>PyText\<close>: the string built-ins the program calls: \<^verbatim>\<open>int(s)\<close> (\<open>py_int\<close>: whitespace,
    sign, digits with underscores, the 4300-digit limit), \<^verbatim>\<open>str(i)\<close> (\<open>py_str_int\<close>),
    \<^verbatim>\<open>str.lower\<close> (\<open>py_lower\<close>) and \<^verbatim>\<open>str.isalnum\<close> (\<open>py_isalnum\<close>) on the code points
    0-255 that Isabelle's \<open>char\<close> covers.
  \<^item> \<open>PyDict\<close>: a Python \<^verbatim>\<open>dict\<close> as an insertion-ordered association list with distinct
    keys; \<open>dict_set\<close>, \<open>dict_del\<close>, \<open>getitem\<close>, \<open>delitem\<close> refine the map operations.
  \<^item> \<open>Gen\<close>: the values in a row, the console lines (\<open>event\<close>, one constructor per
    \<^verbatim>\<open>print\<close>), and a generator as the finite datatype \<open>'a gen\<close> of its resumptions.
  \<^item> \<open>Csv\<close>: the \<^verbatim>\<open>csv\<close> module in the excel dialect: the writer (\<open>csv_write_row\<close>),
    text-mode reading with universal newlines (\<open>text_lines\<close>), the reader state machine
    of CPython's \<^verbatim>\<open>_csv.c\<close> (\<open>process\<close>, \<open>read_record\<close>, \<open>csv_rows\<close>) and
    \<^verbatim>\<open>csv.DictReader\<close> (\<open>dict_reader\<close>). \<open>CsvRoundtrip\<close> proves that the reader reads
    back what the writer wrote; \<open>CsvSafety\<close> proves that on a file read in text mode the
    reader can raise no exception but the field size limit.
  \<^item> \<open>World\<close>: the file system at the program's paths (\<open>fs\<close>), each path holding
    nothing, a directory, a text file or a database whose table is a list of rows.
  \<^item> \<open>Generate\<close>: \<^verbatim>\<open>UserData\<close>, \<^verbatim>\<open>get_user\<close>, \<^verbatim>\<open>generate_csv\<close> with
    \<^verbatim>\<open>csv.DictWriter\<close>; Faker and \<^verbatim>\<open>random.choice\<close> are the oracle \<open>fake\<close>.
  \<^item> \<open>Store\<close>: \<^verbatim>\<open>sqlite3.connect\<close>, the parameterized \<^verbatim>\<open>INSERT\<close> with SQLite's checks
    in SQLite's order (\<open>execute_insert\<close>), and \<^verbatim>\<open>init_db\<close>.
  \<^item> \<open>Extract\<close>, \<open>Transform\<close>, \<open>Load\<close>: the three stages, each generator's loop as a
    function over the generator it consumes (\<open>extract_loop\<close>, \<open>transform_loop\<close>,
    \<open>load_loop\<close>); \<open>transform_row\<close> is the loop body of \<^verbatim>\<open>transform_users\<close> statement by
    statement; \<open>load_data\<close> models the connect outside the \<^verbatim>\<open>try\<close>, the
    \<^verbatim>\<open>with conn\<close> transaction (commit on normal exit, roll back on an exception) and the
    two \<^verbatim>\<open>except\<close> handlers.
  \<^item> \<open>Pipeline\<close>: the constants and \<^verbatim>\<open>__main__\<close> (\<open>main_run\<close>), and the lemmas that
    compute a whole run.

  A state change of the program is a function from the file system to the new file
  system, the exception that escaped (if any) and the printed lines. The generators
  are finite: every file is finite and every loop of the program walks a finite list,
  so \<open>'a gen\<close> needs no fuel; the one recursion that is not structural, the reader's
  loop over records, terminates because each record consumes at least one line
  (\<open>csv_next_shorter\<close>). The clock is the input \<open>clk\<close>, read once per transformed row.

  \<^medskip>\<^bold>\<open>What is proved.\<close>
  \<^item> The whole run (this theory): under the assumptions that Faker's strings hold no
    carriage return and fit the field size limit and that neither path is a directory
    or unreachable, \<open>main_run\<close> raises nothing, stores exactly the twenty users in
    order, lowercased and filtered, and prints the interleaved trace of the lazy pull
    chain; for any file of five-column rows the pipeline preserves the file order; the
    three-row scenario of the specification computes to the rows it expects; a row with
    the wrong number of columns is not a parse error but fails later; no row that
    survives the transform can violate a NOT NULL constraint; a permuted header swaps
    columns; an unreachable database or a missing csv file ends the run as the code's
    exception handling dictates.
  \<^item> The components: the CSV round trip (\<open>CsvRoundtrip\<close>) and the exceptions the
    reader can raise in text mode (\<open>CsvSafety\<close>); the transform of one row on every
    branch (result, password removed, email lowercased, description alphanumeric, key
    order, the exception of \<^verbatim>\<open>int()\<close>) and the transform stage against its
    one-output-per-input contract \<open>transform_spec\<close>; load's all-or-nothing commit as a
    refinement of the reference \<open>load_spec\<close>; the exceptions that escape \<open>load_data\<close>
    and \<open>init_db\<close>, the ones \<open>load_data\<close> swallows, and how it reports an id beyond
    SQLite's 64-bit integers.
  The lemmas of \<open>PyText\<close>, \<open>PyDict\<close> and \<open>Gen\<close> (\<open>int\<close> of \<open>str\<close>, the map
  semantics of the dict operations, the shape of a generator) are the library these
  proofs are built on.

  \<^medskip>\<^bold>\<open>Bounds.\<close> The field size limit is CPython's default, 131072 characters; the
  integer/string conversion limit is CPython's default, 4300 digits; SQLite integers are
  64-bit. The twenty ids of a run have at most two digits, far below both limits.

  \<^medskip>\<^bold>\<open>Not modelled.\<close> Faker's and \<^verbatim>\<open>random\<close>'s values (an oracle), the text of the
  timestamp the \<^verbatim>\<open>sqlite3\<close> datetime adapter stores (\<open>STime\<close>), SQLite's file format,
  journal and type affinity, the closing of handles (no observable effect in the
  model), and code points above 255 in \<^verbatim>\<open>lower\<close> and \<^verbatim>\<open>isalnum\<close>.
\<close>

section \<open>The whole run\<close>

text \<open>C1: when Faker's strings hold no carriage return and fit the field size limit, and
  neither path is a directory or unreachable, a run of the script raises nothing and
  leaves in the table users exactly the twenty generated users, in order, each as
  (id, name, lowercased email, alphanumeric description, its timestamp).\<close>

theorem main_run_loads_users:
  assumes "fs0 csv_file \<noteq> Directory" and "fs0 csv_file \<noteq> Unreachable"
    and "fs0 db_path \<noteq> Directory" and "fs0 db_path \<noteq> Unreachable"
    and "\<forall>k<num_records. fake_ok (fake k)"
  shows "fst (main_run fake clk fs0) = None \<and>
         fst (snd (main_run fake clk fs0)) db_path =
           DbFile (Some (map (stored_user fake clk) [0..<num_records]))"
  using main_run_ok [OF assms] by simp

text \<open>C2: on the same run the console shows the generator pipeline pulling one row at
  a time through the three stages: after the generation and table messages, the load,
  transform and extract start lines, then for every row its extract line, its
  transform line and its insert line, then the three finish lines in the order
  extract, transform, load.\<close>

theorem main_run_trace:
  assumes "fs0 csv_file \<noteq> Directory" and "fs0 csv_file \<noteq> Unreachable"
    and "fs0 db_path \<noteq> Directory" and "fs0 db_path \<noteq> Unreachable"
    and "\<forall>k<num_records. fake_ok (fake k)"
  shows "snd (snd (main_run fake clk fs0)) =
     [Csv_written num_records csv_file, Init_ok, L_start, T_start, E_start] @
     concat (map (\<lambda>k. [E_row k, T_row k, L_insert (transformed_user fake clk k)]) [0..<num_records]) @
     [E_finished, T_finished, L_finished]"
  using main_run_ok [OF assms] by simp

text \<open>C3: for any file written with the header id,name,email,password,description and
  five-column rows that hold no carriage return, fit the field size limit and have
  an id that int() parses into a 64-bit integer, the pipeline appends to the table one
  row per data line, in file order: the parsed id, the name, the lowercased email,
  the alphanumeric description and the row's timestamp; nothing is raised.\<close>

theorem pipeline_preserves_order:
  assumes "fs csv_file = TextFile (concat (map csv_write_row (user_keys # rows)))"
    and "fs db_path = DbFile (Some old)"
    and "\<forall>r\<in>set rows. length r = 5 \<and> (\<forall>f\<in>set r. CR \<notin> set f \<and> length f \<le> csv_field_size_limit)"
    and "\<forall>k<length rows. py_int (rows ! k ! 0) = Inr (ids k) \<and> int64_min \<le> ids k \<and> ids k \<le> int64_max"
  shows "fst (load_data (pipeline_source clk) db_path fs) = None \<and>
         fst (snd (load_data (pipeline_source clk) db_path fs)) db_path =
           DbFile (Some (old @ map (\<lambda>k. stored_line clk k (ids k) (rows ! k)) [0..<length rows]))"
  using load_csv_file [OF assms] commit_at [of fs db_path, OF assms(2)] by simp

text \<open>The scenario of the specification: three users written under the script's header.\<close>

definition spec_rows :: "string list list" where
  "spec_rows =
     [[''0'', ''Ann'', ''A@X.COM'', ''p'', ''ab-12!''],
      [''1'', ''Bo'', ''b@y.com'', ''q'', ''**cd34''],
      [''2'', ''x'', ''C@Z.COM'', ''r'', ''5!6@'']]"

lemma spec_rows_ok:
  "\<forall>r\<in>set spec_rows. length r = 5 \<and> (\<forall>f\<in>set r. CR \<notin> set f \<and> length f \<le> csv_field_size_limit)"
  "\<forall>k<length spec_rows. py_int (spec_rows ! k ! 0) = Inr (int k) \<and> int64_min \<le> int k \<and> int k \<le> int64_max"
  by (simp_all add: spec_rows_def csv_field_size_limit_def less_Suc_eq py_int_eval int64_min_def int64_max_def)

text \<open>C4: in the end-to-end scenario of the specification (the file holds the three rows
  0/Ann/A@X.COM/p/ab-12!, 1/Bo/b@y.com/q/**cd34, 2/x/C@Z.COM/r/5!6@ under the header), after
  the table is initialized and the pipeline has run, the table holds exactly the three
  rows with ids 0, 1, 2, emails a@x.com, b@y.com, c@z.com, descriptions ab12, cd34, 56 and
  the timestamps read when each row was transformed.\<close>

theorem spec_scenario:
  assumes "fs csv_file = TextFile (concat (map csv_write_row (user_keys # spec_rows)))"
    and "fs db_path \<noteq> Directory" and "fs db_path \<noteq> Unreachable"
  shows "fst (snd (load_data (pipeline_source clk) db_path (fst (snd (init_db db_path fs))))) db_path =
    DbFile (Some [[SInt 0, SText ''Ann'', SText ''a@x.com'', SText ''ab12'', STime (clk 0)],
                  [SInt 1, SText ''Bo'', SText ''b@y.com'', SText ''cd34'', STime (clk 1)],
                  [SInt 2, SText ''x'', SText ''c@z.com'', SText ''56'', STime (clk 2)]])"
proof -
  let ?fs2 = "fs(db_path := DbFile (Some []))"
  have "fst (snd (init_db db_path fs)) = ?fs2" using init_db_reset [of fs db_path, OF assms(2,3)] by simp
  moreover have "?fs2 csv_file = TextFile (concat (map csv_write_row (user_keys # spec_rows)))"
    using assms(1) by simp
  ultimately show ?thesis
    using load_csv_file [of ?fs2 spec_rows "[]" int clk, OF _ _ spec_rows_ok]
    by (simp add: stored_line_def spec_rows_def py_text_eval upt_rec commit_def numeral_2_eq_2)
qed

section \<open>Rows with the wrong number of columns\<close>

text \<open>C15: a data line with more fields than the header is not rejected by the reader:
  DictReader stores the surplus under the key None, transform_row keeps it, and the
  row then carries six values for five placeholders, so the insert fails with
  sqlite3.ProgrammingError.\<close>

theorem long_row_fails_at_insert:
  assumes "5 < length r" and "py_int (r ! 0) = Inr i"
  shows "\<exists>r'. transform_row t (mk_dict_row user_keys r) = Inr r' \<and>
              execute_insert (Conn (Some rows)) r' =
                Inl (SqlProgrammingError ''Incorrect number of bindings supplied'')"
proof -
  obtain a b c d e rest where r: "r = [a, b, c, d, e] @ rest" and "rest \<noteq> []"
    using long_row_split [OF assms(1)] by blast
  then show ?thesis using assms(2) by (simp add: transform_long_row execute_insert_def)
qed

text \<open>C16: a data line with one field fewer than the header is not rejected by the
  reader either: DictReader fills the missing description with None and transform_row
  raises TypeError when it iterates over it.\<close>

theorem short_row_fails_at_transform:
  assumes "length r = 4" and "py_int (r ! 0) = Inr i"
  shows "transform_row t (mk_dict_row user_keys r) = Inl (TypeError ''object is not iterable'')"
proof -
  obtain a b c d where r: "r = [a, b, c, d]" using length_4_conv [OF assms(1)] by blast
  then show ?thesis using assms(2)
    by (simp add: mk_dict_row_def user_keys_def dict_from_pairs_def transform_row_def delitem_def
        getitem_def int_of_value_def lower_value_def alnum_join_def)
qed

text \<open>C25: the NOT NULL constraints of the table can never fail on the pipeline's path:
  for a data line of any length under the script's header, if transform_row returns a
  row, inserting it does not raise sqlite3.IntegrityError (a short row fails earlier, in
  the transform; a long row fails with ProgrammingError; a row of five fields binds no
  NULL).\<close>

theorem transformed_row_never_null:
  assumes "transform_row t (mk_dict_row user_keys r) = Inr r'"
  shows "execute_insert (Conn (Some rows)) r' \<noteq> Inl (SqlIntegrityError msg)"
proof -
  consider "length r < 5" | "length r = 5" | "5 < length r" by linarith
  then show ?thesis
  proof cases
    case 1
    then show ?thesis
      using transform_description_None [OF mk_dict_row_wf short_row_description [OF 1]] assms by blast
  next
    case 2
    obtain a b c d e where r: "r = [a, b, c, d, e]" using length_5_conv [OF 2] by blast
    have "mk_dict_row user_keys r = raw_user_row a b c d e"
      using r by (simp add: mk_dict_row_same_length user_keys_def)
    then obtain i where "r' = [(KStr ''id'', VInt i), (KStr ''name'', VStr b), (KStr ''email'', VStr (py_lower c)),
        (KStr ''description'', VStr (filter py_isalnum e)), (KStr ''processed_at'', VTime t)]"
      using assms by (auto simp: transform_row_raw_user)
    then show ?thesis
      by (simp add: execute_insert_def bind_param_def not_null_check_def users_columns_def
          users_not_null_def)
  next
    case 3
    then obtain a b c d e rest where r: "r = [a, b, c, d, e] @ rest" and "rest \<noteq> []"
      by (rule long_row_split)
    then show ?thesis using assms by (auto simp: transform_long_row execute_insert_def)
  qed
qed

section \<open>Header order and positional binding\<close>

text \<open>C22: DictReader orders a row's keys as the file's header does, and load_data binds
  tuple(row.values()) by position: with the header name,id,email,password,description the
  name is stored in the column id and the id in the column name, and no error is
  raised.\<close>

theorem permuted_header_swaps_columns:
  assumes "py_int a = Inr i" and "int64_min \<le> i" and "i \<le> int64_max"
  shows "sbind (transform_row t (mk_dict_row [''name'', ''id'', ''email'', ''password'', ''description'']
                                             [n, a, e, p, d]))
           (execute_insert (Conn (Some rows))) =
         Inr [SText n, SInt i, SText (py_lower e), SText (filter py_isalnum d), STime t]"
  using assms
  by (simp add: mk_dict_row_def dict_from_pairs_def transform_row_def delitem_def getitem_def
      int_of_value_def lower_value_def alnum_join_def execute_insert_def bind_param_def
      not_null_check_def users_columns_def users_not_null_def)

section \<open>Runs that end early\<close>

text \<open>C23: when the database path is a directory or its parent directory is missing,
  the run ends with sqlite3.OperationalError escaping from init_db, after the csv file
  has been written: the exception is not caught and the load stage never runs.\<close>

theorem main_run_db_unreachable:
  assumes "fs0 csv_file \<noteq> Directory" and "fs0 csv_file \<noteq> Unreachable"
    and "fs0 db_path = Directory \<or> fs0 db_path = Unreachable"
  shows "main_run fake clk fs0 =
     (Some open_error, fs0(csv_file := TextFile (csv_text fake)), [Csv_written num_records csv_file])"
proof -
  have "generate_csv csv_file csv_file_fieldnames num_records fake fs0 =
      (None, fs0(csv_file := TextFile (csv_text fake)), [Csv_written num_records csv_file])"
    using generate_csv_ok [of fs0 csv_file num_records fake, OF assms(1,2) num_records_digits]
    by (simp add: csv_file_fieldnames_user_keys csv_text_def)
  then show ?thesis using assms(3) by (auto simp: main_run_def init_db_eq)
qed

text \<open>C24: when the csv file is missing when the pipeline runs, opening it raises
  FileNotFoundError at the first pull, before extract prints anything; load_data catches
  it, reports it as an unexpected error and commits nothing.\<close>

theorem load_missing_csv:
  assumes "fs csv_file = Missing" and "fs db_path = DbFile (Some old)"
  shows "load_data (pipeline_source clk) db_path fs =
           (None, fs, [L_start, T_start, L_unexpected (FileNotFoundError csv_file)])"
  using assms
  by (simp add: load_data_def sqlite_connect_def pipeline_source_def transform_users_def
      extract_users_def report_def)

section \<open>Witnesses\<close>

definition example_fake :: "nat \<Rightarrow> fake_user" where
  "example_fake k = \<lparr>fake_first_name = ''Ann'', fake_email = ''A@X.COM'', fake_password = ''p'',
     fake_description = ''ab-12!''\<rparr>"

lemma example_fake_ok: "\<forall>k<num_records. fake_ok (example_fake k)"
  by (simp add: fake_ok_def example_fake_def csv_field_size_limit_def)

theorem main_run_loads_users_witness:
  "fst (main_run example_fake int (\<lambda>p. Missing)) = None \<and>
   fst (snd (main_run example_fake int (\<lambda>p. Missing))) db_path =
     DbFile (Some (map (stored_user example_fake int) [0..<num_records]))"
  by (rule main_run_loads_users) (simp_all add: example_fake_ok)

theorem main_run_trace_witness:
  "snd (snd (main_run example_fake int (\<lambda>p. Missing))) =
     [Csv_written num_records csv_file, Init_ok, L_start, T_start, E_start] @
     concat (map (\<lambda>k. [E_row k, T_row k, L_insert (transformed_user example_fake int k)]) [0..<num_records]) @
     [E_finished, T_finished, L_finished]"
  by (rule main_run_trace) (simp_all add: example_fake_ok)

theorem pipeline_preserves_order_witness:
  "fst (load_data (pipeline_source int) db_path
          ((\<lambda>p. Missing)(csv_file := TextFile (concat (map csv_write_row (user_keys # spec_rows))),
                          db_path := DbFile (Some [])))) = None \<and>
   fst (snd (load_data (pipeline_source int) db_path
          ((\<lambda>p. Missing)(csv_file := TextFile (concat (map csv_write_row (user_keys # spec_rows))),
                          db_path := DbFile (Some []))))) db_path =
     DbFile (Some ([] @ map (\<lambda>k. stored_line int k (int k) (spec_rows ! k)) [0..<length spec_rows]))"
  by (rule pipeline_preserves_order) (simp_all add: spec_rows_ok)

theorem spec_scenario_witness:
  "fst (snd (load_data (pipeline_source int) db_path
      (fst (snd (init_db db_path ((\<lambda>p. Missing)(csv_file := TextFile (concat (map csv_write_row (user_keys # spec_rows)))))))))) db_path =
    DbFile (Some [[SInt 0, SText ''Ann'', SText ''a@x.com'', SText ''ab12'', STime 0],
                  [SInt 1, SText ''Bo'', SText ''b@y.com'', SText ''cd34'', STime 1],
                  [SInt 2, SText ''x'', SText ''c@z.com'', SText ''56'', STime 2]])"
  using spec_scenario [of "(\<lambda>p. Missing)(csv_file := TextFile (concat (map csv_write_row (user_keys # spec_rows))))" int]
  by simp

theorem long_row_fails_at_insert_witness:
  "\<exists>r'. transform_row 0 (mk_dict_row user_keys [''1'', ''a'', ''b'', ''c'', ''d'', ''e'']) = Inr r' \<and>
        execute_insert (Conn (Some [])) r' =
          Inl (SqlProgrammingError ''Incorrect number of bindings supplied'')"
  by (rule long_row_fails_at_insert) (simp_all add: py_int_eval)

theorem short_row_fails_at_transform_witness:
  "transform_row 0 (mk_dict_row user_keys [''1'', ''a'', ''b'', ''c'']) =
     Inl (TypeError ''object is not iterable'')"
  by (rule short_row_fails_at_transform) (simp_all add: py_int_eval)

theorem permuted_header_swaps_columns_witness:
  "sbind (transform_row 9 (mk_dict_row [''name'', ''id'', ''email'', ''password'', ''description'']
                                        [''Ann'', ''7'', ''A@X.COM'', ''p'', ''ab-12!''])) (execute_insert (Conn (Some []))) =
   Inr [SText ''Ann'', SInt 7, SText (py_lower ''A@X.COM''), SText (filter py_isalnum ''ab-12!''), STime 9]"
  by (rule permuted_header_swaps_columns) (simp_all add: py_int_eval int64_min_def int64_max_def)

theorem main_run_db_unreachable_witness:
  "main_run example_fake int ((\<lambda>p. Missing)(db_path := Directory)) =
     (Some open_error, ((\<lambda>p. Missing)(db_path := Directory))(csv_file := TextFile (csv_text example_fake)),
      [Csv_written num_records csv_file])"
  by (rule main_run_db_unreachable) simp_all

theorem load_missing_csv_witness:
  "load_data (pipeline_source int) db_path ((\<lambda>p. Missing)(db_path := DbFile (Some []))) =
     (None, (\<lambda>p. Missing)(db_path := DbFile (Some [])), [L_start, T_start, L_unexpected (FileNotFoundError csv_file)])"
  by (rule load_missing_csv) simp_all

theorem transformed_row_never_null_witness:
  "execute_insert (Conn (Some []))
     [(KStr ''id'', VInt 1), (KStr ''name'', VStr ''a''), (KStr ''email'', VStr ''b''),
      (KStr ''description'', VStr ''d''), (KStr ''processed_at'', VTime 0)] \<noteq>
   Inl (SqlIntegrityError ''NOT NULL constraint failed: users.name'')"
proof -
  have "transform_row 0 (mk_dict_row user_keys [''1'', ''a'', ''b'', ''c'', ''d'']) =
     Inr [(KStr ''id'', VInt 1), (KStr ''name'', VStr ''a''), (KStr ''email'', VStr ''b''),
          (KStr ''description'', VStr ''d''), (KStr ''processed_at'', VTime 0)]"
    by (simp add: mk_dict_row_same_length user_keys_def transform_row_raw_user py_int_eval py_text_eval)
  then show ?thesis by (rule transformed_row_never_null)
qed

end
